theory Spec2Isabelle
  imports Complex_Main "HOL-Library.AList" "HOL-Library.Sublist" "HOL-Library.Monad_Syntax"
begin

section \<open>Values of the provider's payloads\<close>

text \<open>
  The service handles the provider's responses as Python values decoded from JSON:
  \<open>None\<close>, booleans, numbers, strings, lists and dictionaries with string keys.
  A number is kept by its value: a Python \<open>int\<close> or a finite \<open>float\<close> is the
  rational it denotes, and arithmetic on numbers is exact (the rounding of binary floating
  point is not part of this development). A dictionary is the list of its items in
  insertion order; its keys are distinct.
\<close>

datatype json =
    JNull
  | JBool bool
  | JNum rat
  | JStr string
  | JList "json list"
  | JDict "(string \<times> json) list"

section \<open>Stress to mood\<close>

text \<open>
  \<open>map_garmin_stress_to_mood(stress_level)\<close>: the argument is \<open>None\<close> or a number,
  the result a pair whose components are both \<open>None\<close> or a mood score and its label.
  Python compares a number with the integer bounds by value, so the chain of
  \<open>a <= stress_level <= b\<close> tests is a chain of tests on rationals.
\<close>

definition map_garmin_stress_to_mood :: "rat option \<Rightarrow> int option \<times> string option" where
  "map_garmin_stress_to_mood stress_level =
     (case stress_level of
        None \<Rightarrow> (None, None)
      | Some s \<Rightarrow>
          if s < 0 then (None, None)
          else if 0 \<le> s \<and> s \<le> 10 then (Some 95, Some ''Excited'')
          else if 11 \<le> s \<and> s \<le> 25 then (Some 85, Some ''Happy'')
          else if 26 \<le> s \<and> s \<le> 35 then (Some 75, Some ''Confident'')
          else if 36 \<le> s \<and> s \<le> 50 then (Some 65, Some ''Calm'')
          else if 51 \<le> s \<and> s \<le> 60 then (Some 55, Some ''Thoughtful'')
          else if 61 \<le> s \<and> s \<le> 75 then (Some 45, Some ''Neutral'')
          else if 76 \<le> s \<and> s \<le> 85 then (Some 35, Some ''Worried'')
          else if 86 \<le> s \<and> s \<le> 95 then (Some 25, Some ''Angry'')
          else if 96 \<le> s \<and> s \<le> 100 then (Some 15, Some ''Sad/Tired'')
          else (Some 50, Some ''Neutral''))"

text \<open>The nine closed bands of the lookup table, as the source writes them.\<close>

definition in_band :: "rat \<Rightarrow> bool" where
  "in_band s \<longleftrightarrow>
     0 \<le> s \<and> s \<le> 10 \<or> 11 \<le> s \<and> s \<le> 25 \<or> 26 \<le> s \<and> s \<le> 35 \<or>
     36 \<le> s \<and> s \<le> 50 \<or> 51 \<le> s \<and> s \<le> 60 \<or> 61 \<le> s \<and> s \<le> 75 \<or>
     76 \<le> s \<and> s \<le> 85 \<or> 86 \<le> s \<and> s \<le> 95 \<or> 96 \<le> s \<and> s \<le> 100"

text \<open>The open gaps between two adjacent bands.\<close>

definition in_gap :: "rat \<Rightarrow> bool" where
  "in_gap s \<longleftrightarrow>
     10 < s \<and> s < 11 \<or> 25 < s \<and> s < 26 \<or> 35 < s \<and> s < 36 \<or> 50 < s \<and> s < 51 \<or>
     60 < s \<and> s < 61 \<or> 75 < s \<and> s < 76 \<or> 85 < s \<and> s < 86 \<or> 95 < s \<and> s < 96"

section \<open>The recursive cleaner\<close>

text \<open>
  \<open>clean_garmin_data(data)\<close> drops \<open>None\<close> values and the provider's internal keys from
  nested dictionaries and lists, and decodes strings that hold JSON.

  A dictionary entry is kept when its value is not \<open>None\<close>, its key is none of the five
  internal names and \<open>endConditionCompare\<close> is not a substring of its key.
\<close>

definition excluded_key :: "string \<Rightarrow> bool" where
  "excluded_key k \<longleftrightarrow>
     k \<in> set [''ownerId'', ''userProfilePk'', ''permissionId'', ''userRoles'', ''equipmentTypeId'']
     \<or> sublist ''endConditionCompare'' k"

text \<open>
  \<open>data.replace('""', '"')\<close>: every occurrence of two double quotes, found from the left
  without overlap, becomes one double quote.
\<close>

fun replace_dq :: "string \<Rightarrow> string" where
  "replace_dq (a # b # cs) =
     (if a = CHR 0x22 \<and> b = CHR 0x22 then CHR 0x22 # replace_dq cs else a # replace_dq (b # cs))"
| "replace_dq cs = cs"

lemma length_replace_dq: "length (replace_dq s) \<le> length s"
  by (induction s rule: replace_dq.induct) auto

text \<open>
  \<open>str_bound x\<close> is one more than the length of the longest string among the values of
  \<open>x\<close> (dictionary keys are not values), and 0 when \<open>x\<close> holds no string.
\<close>

primrec str_bound :: "json \<Rightarrow> nat" where
  "str_bound JNull = 0"
| "str_bound (JBool b) = 0"
| "str_bound (JNum r) = 0"
| "str_bound (JStr s) = Suc (length s)"
| "str_bound (JList xs) = foldr max (map str_bound xs) 0"
| "str_bound (JDict kvs) = foldr max (map snd (map (map_prod id str_bound) kvs)) 0"

primrec node_count :: "json \<Rightarrow> nat" where
  "node_count JNull = 1"
| "node_count (JBool b) = 1"
| "node_count (JNum r) = 1"
| "node_count (JStr s) = 1"
| "node_count (JList xs) = Suc (sum_list (map node_count xs) + length xs)"
| "node_count (JDict kvs) = Suc (sum_list (map snd (map (map_prod id node_count) kvs)) + length kvs)"

text \<open>
  \<open>json.loads\<close> belongs to Python's library, so the cleaner takes the decoder as an
  argument. \<open>loads d t\<close> is \<open>Some\<close> of the decoded document, or \<open>None\<close> when \<open>json.loads(t)\<close>
  raises \<open>JSONDecodeError\<close>. The one fact about JSON that the cleaner relies on is part of
  the type: a string inside a document is written between two quotes and no escape sequence
  is shorter than the character it stands for, so every string value of the decoded
  document is strictly shorter than the text. This is what makes the cleaner's recursion
  on decoded strings end.
\<close>

typedef decoder = "{f :: string \<Rightarrow> json option. \<forall>t p. f t = Some p \<longrightarrow> str_bound p \<le> length t}"
  morphisms loads Abs_decoder
  by (rule exI [of _ "\<lambda>t. None"]) simp

setup_lifting type_definition_decoder

lemma loads_bound: "loads d t = Some p \<Longrightarrow> str_bound p \<le> length t"
  using loads [of d] by simp

text \<open>
  The cleaner. The loop over \<open>data.items()\<close> is \<open>clean_items\<close>, which builds
  \<open>cleaned_dict\<close> in the order of the items; the list comprehension over the items of a
  list is \<open>clean_list\<close>, followed by the filter that drops \<open>None\<close>. An empty
  \<open>cleaned_dict\<close> is returned as \<open>None\<close>; a list is returned as a list, also when it is
  empty. A string is decoded after \<open>replace_dq\<close> and the decoded document is cleaned; a
  string that does not decode is returned as it is. Every other value is returned as it is.
\<close>

function (sequential)
  clean_garmin_data :: "decoder \<Rightarrow> json \<Rightarrow> json" and
  clean_items :: "decoder \<Rightarrow> (string \<times> json) list \<Rightarrow> (string \<times> json) list" and
  clean_list :: "decoder \<Rightarrow> json list \<Rightarrow> json list"
where
  "clean_garmin_data d (JDict kvs) =
     (let cleaned_dict = clean_items d kvs in
      if cleaned_dict \<noteq> [] then JDict cleaned_dict else JNull)"
| "clean_garmin_data d (JList xs) = JList (filter (\<lambda>item. item \<noteq> JNull) (clean_list d xs))"
| "clean_garmin_data d (JStr s) =
     (case loads d (replace_dq s) of
        Some parsed_json \<Rightarrow> clean_garmin_data d parsed_json
      | None \<Rightarrow> JStr s)"
| "clean_garmin_data d x = x"
| "clean_items d [] = []"
| "clean_items d ((k, v) # kvs) =
     (if v \<noteq> JNull \<and> \<not> excluded_key k then
        (let cleaned_value = clean_garmin_data d v in
         if cleaned_value \<noteq> JNull then (k, cleaned_value) # clean_items d kvs
         else clean_items d kvs)
      else clean_items d kvs)"
| "clean_list d [] = []"
| "clean_list d (x # xs) = clean_garmin_data d x # clean_list d xs"
  by pat_completeness auto

definition clean_measure :: "decoder \<times> json + decoder \<times> (string \<times> json) list + decoder \<times> json list \<Rightarrow> nat \<times> nat" where
  "clean_measure a =
     (case a of
        Inl (d, x) \<Rightarrow> (str_bound x, node_count x)
      | Inr (Inl (d, kvs)) \<Rightarrow> (str_bound (JDict kvs), node_count (JDict kvs) - 1)
      | Inr (Inr (d, xs)) \<Rightarrow> (str_bound (JList xs), node_count (JList xs) - 1))"

termination clean_garmin_data
proof (relation "inv_image (less_than <*lex*> less_than) clean_measure", goal_cases)
  case 1
  show ?case by (intro wf_inv_image wf_lex_prod wf_less_than)
next
  case (2 d kvs)
  show ?case by (simp add: clean_measure_def)
next
  case (3 d xs)
  show ?case by (simp add: clean_measure_def)
next
  case (4 d s parsed)
  then have "str_bound parsed \<le> length (replace_dq s)"
    by (rule loads_bound)
  with length_replace_dq [of s] show ?case
    by (simp add: clean_measure_def)
next
  case (5 d k v kvs)
  have "str_bound v \<le> max (str_bound v) (foldr max (map snd (map (map_prod id str_bound) kvs)) 0)"
    by simp
  then show ?case
    by (auto simp add: clean_measure_def)
next
  case (6 d k v kvs)
  then show ?case by (auto simp add: clean_measure_def)
next
  case (7 d k v kvs)
  then show ?case by (auto simp add: clean_measure_def)
next
  case (8 d k v kvs)
  then show ?case by (auto simp add: clean_measure_def)
next
  case (9 d x xs)
  then show ?case by (auto simp add: clean_measure_def)
next
  case (10 d x xs)
  then show ?case by (auto simp add: clean_measure_def)
qed

text \<open>
  A finite part of the graph of \<open>json.loads\<close>, for evaluating the cleaner on examples:
  each listed text decodes as \<open>json.loads\<close> decodes it, and no other text is decoded. The
  examples below hold, besides the listed texts, only strings that are not JSON
  (\<open>steps\<close>, \<open>run\<close>, a date), for which \<open>json.loads\<close> raises \<open>JSONDecodeError\<close> as well.
\<close>

lift_definition sample_loads :: decoder is
  "\<lambda>t. if t = ''null'' then Some JNull
       else if t = ''0'' then Some (JNum 0)
       else if t = ''{}'' then Some (JDict [])
       else if t = ''[0, null]'' then Some (JList [JNum 0, JNull])
       else if t = [CHR 0x22, CHR ''7'', CHR 0x22] then Some (JStr ''7'')
       else if t = ''7'' then Some (JNum 7)
       else None"
  by (auto split: if_splits)




section \<open>Unit conversion\<close>

text \<open>
  The exceptions of Python that the modelled code can raise, and \<open>UpstreamError\<close> for any
  exception raised by a call of the provider's client.
\<close>

datatype py_error = TypeError | AttributeError | KeyError | IndexError | ValueError | UpstreamError

text \<open>Python's truth value of a payload value (\<open>if x\<close>, \<open>x or y\<close>, \<open>not x\<close>).\<close>

fun truthy :: "json \<Rightarrow> bool" where
  "truthy JNull = False"
| "truthy (JBool b) = b"
| "truthy (JNum r) = (r \<noteq> 0)"
| "truthy (JStr s) = (s \<noteq> [])"
| "truthy (JList xs) = (xs \<noteq> [])"
| "truthy (JDict kvs) = (kvs \<noteq> [])"

text \<open>\<open>d.get(k)\<close> on a dictionary: the value of the key, \<open>None\<close> when the key is absent.\<close>

definition py_get :: "(string \<times> json) list \<Rightarrow> string \<Rightarrow> json" where
  "py_get d k = (case map_of d k of Some v \<Rightarrow> v | None \<Rightarrow> JNull)"

text \<open>
  \<open>x / c\<close> for a float constant \<open>c\<close>: defined on numbers (a boolean counts as 0 or 1),
  \<open>TypeError\<close> on every other value.
\<close>

fun true_div :: "json \<Rightarrow> rat \<Rightarrow> py_error + json" where
  "true_div (JNum r) c = Inr (JNum (r / c))"
| "true_div (JBool b) c = Inr (JNum ((if b then 1 else 0) / c))"
| "true_div x c = Inl TypeError"

definition safe_convert :: "json \<Rightarrow> (json \<Rightarrow> py_error + json) \<Rightarrow> py_error + json" where
  "safe_convert v conversion_func = (if v \<noteq> JNull then conversion_func v else Inr JNull)"

definition grams_to_kg :: "json \<Rightarrow> py_error + json" where
  "grams_to_kg g = true_div g 1000"

definition meters_to_km :: "json \<Rightarrow> py_error + json" where
  "meters_to_km m = true_div m 1000"

definition seconds_to_minutes :: "json \<Rightarrow> py_error + json" where
  "seconds_to_minutes s = true_div s 60"

text \<open>
  One statement of the loop body of \<open>convert_activities_units\<close>:
  \<open>activity[k] = safe_convert(activity.get(k), conversion_func)\<close>. The assignment stores
  the key whether or not it was there.
\<close>

definition convert_field ::
  "string \<Rightarrow> (json \<Rightarrow> py_error + json) \<Rightarrow> (string \<times> json) list \<Rightarrow> py_error + (string \<times> json) list" where
  "convert_field k conversion_func activity =
     (case safe_convert (py_get activity k) conversion_func of
        Inl e \<Rightarrow> Inl e
      | Inr v \<Rightarrow> Inr (AList.update k v activity))"






section \<open>Login and the MFA challenge cache\<close>

text \<open>
  The exceptions the two login handlers tell apart. \<open>GarthHTTPError\<close> and \<open>GarthException\<close>
  come from the provider's client, \<open>HTTPException\<close> is the framework's error response (a
  status code and a detail), and \<open>PyError\<close> is any other exception.
\<close>


datatype exc =
    GarthHTTPError string
  | GarthException string
  | HTTPException nat string
  | PyError py_error

text \<open>
  The provider's client is a parameter: \<open>login_up\<close> is \<open>Garmin(email, password).login()\<close>,
  which asks for an MFA code (handing out its challenge state), returns tokens, or raises;
  \<open>resume_login_up\<close> is \<open>resume_login(client_state, mfa_code)\<close> followed by the dump of the
  tokens. The challenge state is the provider's own object, of any type \<open>'c\<close>.
\<close>

datatype 'c login_result = Needs_mfa 'c | Logged_in string | Login_raises exc

record 'c upstream =
  login_up :: "string \<Rightarrow> string \<Rightarrow> 'c login_result"
  resume_login_up :: "'c \<Rightarrow> json \<Rightarrow> exc + string"

text \<open>
  \<open>MFA_STATE_STORE\<close>: a dictionary from handle to the challenge state and the time it was
  stored. \<open>_cleanup_mfa_cache\<close> reads the clock and deletes every entry older than the TTL.
\<close>

record 'c mfa_item =
  state :: 'c
  ts :: rat

type_synonym 'c mfa_store = "string \<rightharpoonup> 'c mfa_item"

definition MFA_TTL_SECONDS :: rat where
  "MFA_TTL_SECONDS = 5 * 60"

definition cleanup_mfa_cache :: "rat \<Rightarrow> 'c mfa_store \<Rightarrow> 'c mfa_store" where
  "cleanup_mfa_cache now store =
     (\<lambda>token. case store token of
        None \<Rightarrow> None
      | Some v \<Rightarrow> if now - ts v > MFA_TTL_SECONDS then None else Some v)"

text \<open>
  What a handler answers: the two success bodies, or \<open>HTTPException(status, detail)\<close>.
\<close>

datatype response =
    Needs_mfa_response string
  | Success_response string
  | Failure nat string

text \<open>
  What \<open>garmin_login\<close> reads from its environment when an MFA code is needed: the fresh
  \<open>uuid4().hex\<close>, the clock when the entry is stored, and the clock inside the sweep that
  follows. \<open>str_of\<close> is Python's \<open>str\<close> of an exception, interpolated into the detail.
\<close>

record login_env =
  uuid4_hex :: string
  time_at_store :: rat
  time_at_sweep :: rat

definition garmin_login ::
  "'c upstream \<Rightarrow> (exc \<Rightarrow> string) \<Rightarrow> login_env \<Rightarrow> string \<Rightarrow> string \<Rightarrow> 'c mfa_store
     \<Rightarrow> response \<times> 'c mfa_store" where
  "garmin_login garmin str_of env email password store =
     (case login_up garmin email password of
        Needs_mfa result2 \<Rightarrow>
          (let mfa_id = uuid4_hex env;
               store1 = store(mfa_id \<mapsto> \<lparr>state = result2, ts = time_at_store env\<rparr>);
               store2 = cleanup_mfa_cache (time_at_sweep env) store1
           in (Needs_mfa_response mfa_id, store2))
      | Logged_in tokens \<Rightarrow> (Success_response tokens, store)
      | Login_raises e \<Rightarrow>
          (case e of
             GarthHTTPError m \<Rightarrow> (Failure 500 (''Garmin login error: '' @ str_of e), store)
           | GarthException m \<Rightarrow> (Failure 500 (''Failed to login to Garmin: '' @ str_of e), store)
           | _ \<Rightarrow> (Failure 500 (''An unexpected error occurred: '' @ str_of e), store)))"

text \<open>
  The \<open>try\<close> block of \<open>garmin_resume_login\<close>, on the decoded request body. The entry is
  removed by \<open>pop\<close> before the provider is called. The handler never reads the clock. A
  key that is a list or a dictionary cannot be hashed (\<open>TypeError\<close>); a number is no key of
  the store. The \<open>HTTPException\<close>s raised inside the block are caught by the handler's own
  \<open>except Exception\<close> and wrapped into a 500.
\<close>

definition resume_try :: "'c upstream \<Rightarrow> json \<Rightarrow> 'c mfa_store \<Rightarrow> (exc + string) \<times> 'c mfa_store" where
  "resume_try garmin data store =
     (case data of
        JDict kvs \<Rightarrow>
          (let client_state = py_get kvs ''client_state'';
               mfa_code = py_get kvs ''mfa_code'';
               user_id = py_get kvs ''user_id''
           in if \<not> truthy client_state \<or> \<not> truthy mfa_code \<or> \<not> truthy user_id then
                (Inl (HTTPException 400 ''Missing client_state, mfa_code, or user_id.''), store)
              else
                (case client_state of
                   JList xs \<Rightarrow> (Inl (PyError TypeError), store)
                 | JDict d \<Rightarrow> (Inl (PyError TypeError), store)
                 | JStr h \<Rightarrow>
                     (case store h of
                        None \<Rightarrow> (Inl (HTTPException 400 ''Invalid or expired mfa_token''), store)
                      | Some item \<Rightarrow> (resume_login_up garmin (state item) mfa_code, store(h := None)))
                 | _ \<Rightarrow> (Inl (HTTPException 400 ''Invalid or expired mfa_token''), store)))
      | _ \<Rightarrow> (Inl (PyError AttributeError), store))"

definition garmin_resume_login ::
  "'c upstream \<Rightarrow> (exc \<Rightarrow> string) \<Rightarrow> json \<Rightarrow> 'c mfa_store \<Rightarrow> response \<times> 'c mfa_store" where
  "garmin_resume_login garmin str_of data store =
     (case resume_try garmin data store of
        (Inr tokens, store') \<Rightarrow> (Success_response tokens, store')
      | (Inl e, store') \<Rightarrow>
          (case e of
             GarthHTTPError m \<Rightarrow> (Failure 500 (''Garmin MFA error: '' @ str_of e), store')
           | GarthException m \<Rightarrow> (Failure 500 (''Failed to complete Garmin MFA: '' @ str_of e), store')
           | _ \<Rightarrow> (Failure 500 (''An unexpected error occurred: '' @ str_of e), store')))"

text \<open>
  A sequence of requests, each served at a time of the wall clock. A login reads that time
  for the entry and for its sweep; a resume does not read it.
\<close>

datatype request = Login string string string | Resume json

fun serve ::
  "'c upstream \<Rightarrow> (exc \<Rightarrow> string) \<Rightarrow> (rat \<times> request) list \<Rightarrow> 'c mfa_store
     \<Rightarrow> response list \<times> 'c mfa_store" where
  "serve garmin str_of [] store = ([], store)"
| "serve garmin str_of ((t, Login uuid email password) # rs) store =
     (case garmin_login garmin str_of
             \<lparr>uuid4_hex = uuid, time_at_store = t, time_at_sweep = t\<rparr> email password store of
        (resp, store') \<Rightarrow>
          (case serve garmin str_of rs store' of (resps, s) \<Rightarrow> (resp # resps, s)))"
| "serve garmin str_of ((t, Resume data) # rs) store =
     (case garmin_resume_login garmin str_of data store of
        (resp, store') \<Rightarrow>
          (case serve garmin str_of rs store' of (resps, s) \<Rightarrow> (resp # resps, s)))"

text \<open>
  A provider for the examples: one account that needs an MFA code, \<open>123456\<close>. \<open>sample_str\<close>
  prints an \<open>HTTPException\<close> as the framework does, status and detail.
\<close>

definition sample_garmin :: "string upstream" where
  "sample_garmin =
     \<lparr>login_up = (\<lambda>email password.
         if password = ''secret'' then Needs_mfa (''challenge-for-'' @ email)
         else Login_raises (GarthHTTPError ''401'')),
      resume_login_up = (\<lambda>c code.
         if c = ''challenge-for-ann@example.org'' \<and> code = JStr ''123456'' then Inr ''tokens-of-ann''
         else Inl (GarthException ''bad code''))\<rparr>"

definition sample_str :: "exc \<Rightarrow> string" where
  "sample_str e =
     (case e of
        HTTPException status detail \<Rightarrow> (if status = 400 then ''400: '' else ''500: '') @ detail
      | GarthHTTPError m \<Rightarrow> m
      | GarthException m \<Rightarrow> m
      | PyError p \<Rightarrow> ''error'')"

definition resume_body :: "string \<Rightarrow> json" where
  "resume_body h =
     JDict [(''client_state'', JStr h), (''mfa_code'', JStr ''123456''), (''user_id'', JStr ''u1'')]"

section \<open>Activities and their enrichments\<close>

text \<open>
  The six per-activity calls of the provider's client, as one function of the kind of
  enrichment and the activity id: \<open>Some\<close> of the returned document, or \<open>None\<close> when the
  call raises.
\<close>

datatype enrichment = Details | Splits | Weather | Hr_in_timezones | Exercise_sets | Gear

type_synonym activity_client = "enrichment \<Rightarrow> json \<Rightarrow> json option"

text \<open>\<open>a or b\<close>, and the number a value stands for in arithmetic (a boolean is 0 or 1).\<close>

definition py_or :: "json \<Rightarrow> json \<Rightarrow> json" where
  "py_or a b = (if truthy a then a else b)"

fun num_value :: "json \<Rightarrow> rat option" where
  "num_value (JNum r) = Some r"
| "num_value (JBool b) = Some (if b then 1 else 0)"
| "num_value x = None"

text \<open>
  \<open>max(0.0, cal - bmr)\<close> with \<open>cal = activity.get("calories") or 0.0\<close> and the same for
  \<open>bmrCalories\<close>; the subtraction raises \<open>TypeError\<close> on a value that is not a number.
\<close>

definition active_calories :: "(string \<times> json) list \<Rightarrow> py_error + rat" where
  "active_calories activity =
     (let cal = py_or (py_get activity ''calories'') (JNum 0);
          bmr = py_or (py_get activity ''bmrCalories'') (JNum 0)
      in case (num_value cal, num_value bmr) of
           (Some c, Some b) \<Rightarrow> Inr (max 0 (c - b))
         | _ \<Rightarrow> Inl TypeError)"

text \<open>
  The six calls, in the order of the source. They stand in one \<open>try\<close> block: the first
  call that raises ends the block.
\<close>

definition fetch_enrichments ::
  "activity_client \<Rightarrow> json \<Rightarrow> (json \<times> json \<times> json \<times> json \<times> json \<times> json) option" where
  "fetch_enrichments garmin activity_id =
     (case garmin Details activity_id of None \<Rightarrow> None | Some activity_details \<Rightarrow>
      case garmin Splits activity_id of None \<Rightarrow> None | Some activity_splits \<Rightarrow>
      case garmin Weather activity_id of None \<Rightarrow> None | Some activity_weather \<Rightarrow>
      case garmin Hr_in_timezones activity_id of None \<Rightarrow> None | Some activity_hr_in_timezones \<Rightarrow>
      case garmin Exercise_sets activity_id of None \<Rightarrow> None | Some activity_exercise_sets \<Rightarrow>
      case garmin Gear activity_id of None \<Rightarrow> None | Some activity_gear \<Rightarrow>
        Some (activity_details, activity_splits, activity_weather, activity_hr_in_timezones,
              activity_exercise_sets, activity_gear))"

text \<open>
  The search for cadence and power in the details. The loop over
  \<open>activity_details["metrics"]\<close> calls \<open>metric.get\<close>, which raises on an item that is not a
  dictionary; a truthy \<open>metrics\<close> that is not a list raises as well (its items are strings,
  or it cannot be iterated). \<open>None\<close> is such an exception, inside the \<open>try\<close> block.
\<close>

fun scan_metrics :: "json list \<Rightarrow> json \<times> json \<Rightarrow> (json \<times> json) option" where
  "scan_metrics [] found = Some found"
| "scan_metrics (JDict metric # metrics) (extracted_cadence, extracted_power) =
     scan_metrics metrics
       (if py_get metric ''metricName'' = JStr ''cadence'' then py_get metric ''value''
        else extracted_cadence,
        if py_get metric ''metricName'' = JStr ''power'' then py_get metric ''value''
        else extracted_power)"
| "scan_metrics (metric # metrics) found = None"

definition extract_cadence_power :: "json \<Rightarrow> (json \<times> json) option" where
  "extract_cadence_power activity_details =
     (case activity_details of
        JDict kvs \<Rightarrow>
          if kvs = [] then Some (JNull, JNull)
          else
            (case (if \<not> truthy (py_get kvs ''metrics'') then Some (JNull, JNull)
                   else case py_get kvs ''metrics'' of
                          JList metrics \<Rightarrow> scan_metrics metrics (JNull, JNull)
                        | _ \<Rightarrow> None) of
               None \<Rightarrow> None
             | Some (extracted_cadence, extracted_power) \<Rightarrow>
                 Some (py_or (py_or extracted_cadence (py_get kvs ''avgCadence''))
                             (py_get kvs ''averageCadence''),
                       py_or (py_or extracted_power (py_get kvs ''avgPower''))
                             (py_get kvs ''averagePower'')))
      | _ \<Rightarrow> Some (JNull, JNull))"

text \<open>
  \<open>json.dumps(clean_garmin_data(x)) if x else None\<close>; \<open>json.dumps\<close> is the library's, a
  parameter here.
\<close>

definition blob :: "decoder \<Rightarrow> (json \<Rightarrow> string) \<Rightarrow> json \<Rightarrow> json" where
  "blob d dumps x = (if truthy x then JStr (dumps (clean_garmin_data d x)) else JNull)"

text \<open>
  The \<open>try\<close> block of the loop body and its \<open>except\<close>: the entry appended for one
  activity.
\<close>

definition enriched_entry ::
  "decoder \<Rightarrow> (json \<Rightarrow> string) \<Rightarrow> activity_client \<Rightarrow> (string \<times> json) list \<Rightarrow> json \<Rightarrow> rat
     \<Rightarrow> json option" where
  "enriched_entry d dumps garmin activity activity_id active_cal =
     (case fetch_enrichments garmin activity_id of
        None \<Rightarrow> None
      | Some (activity_details, activity_splits, activity_weather, activity_hr_in_timezones,
              activity_exercise_sets, activity_gear) \<Rightarrow>
          (case extract_cadence_power activity_details of
             None \<Rightarrow> None
           | Some (extracted_cadence, extracted_power) \<Rightarrow>
               Some (JDict
                 [(''activity'', JDict (AList.update ''active_calories'' (JNum active_cal)
                                         (AList.update ''power'' extracted_power
                                           (AList.update ''cadence'' extracted_cadence activity)))),
                  (''details'', blob d dumps activity_details),
                  (''splits'', blob d dumps activity_splits),
                  (''weather'', blob d dumps activity_weather),
                  (''hr_in_timezones'', blob d dumps activity_hr_in_timezones),
                  (''exercise_sets'', blob d dumps activity_exercise_sets),
                  (''gear'', blob d dumps activity_gear)])))"

definition detail_entry ::
  "decoder \<Rightarrow> (json \<Rightarrow> string) \<Rightarrow> activity_client \<Rightarrow> (string \<times> json) list \<Rightarrow> json \<Rightarrow> rat
     \<Rightarrow> json" where
  "detail_entry d dumps garmin activity activity_id active_cal =
     (case enriched_entry d dumps garmin activity activity_id active_cal of
        Some entry \<Rightarrow> entry
      | None \<Rightarrow> JDict [(''activity'', JDict activity)])"

text \<open>
  The loop over the converted activities. \<open>activity["activityId"]\<close> and the active
  calories are computed before the \<open>try\<close> block: an exception there ends the request.
\<close>

fun detail_activities ::
  "decoder \<Rightarrow> (json \<Rightarrow> string) \<Rightarrow> activity_client \<Rightarrow> (string \<times> json) list list
     \<Rightarrow> py_error + json list" where
  "detail_activities d dumps garmin [] = Inr []"
| "detail_activities d dumps garmin (activity # activities) =
     (case map_of activity ''activityId'' of
        None \<Rightarrow> Inl KeyError
      | Some activity_id \<Rightarrow>
          (case active_calories activity of
             Inl e \<Rightarrow> Inl e
           | Inr active_cal \<Rightarrow>
               (case detail_activities d dumps garmin activities of
                  Inl e \<Rightarrow> Inl e
                | Inr detailed \<Rightarrow>
                    Inr (detail_entry d dumps garmin activity activity_id active_cal # detailed))))"

text \<open>
  A provider for the examples: every call returns a small document, except the weather of
  activity 2, which raises. \<open>sample_dumps\<close> prints the two documents the examples serialise.
\<close>

definition sample_client :: activity_client where
  "sample_client kind activity_id =
     (if kind = Weather \<and> activity_id = JNum 2 then None
      else if kind = Details then Some (JDict [(''avgCadence'', JNum 80)])
      else Some JNull)"

definition sample_dumps :: "json \<Rightarrow> string" where
  "sample_dumps x = (if x = JDict [(''avgCadence'', JNum 80)] then ''{avgCadence: 80}'' else ''?'')"

section \<open>Python operations on payload values\<close>

text \<open>
  Inside a \<open>try\<close> block of the aggregation every exception is caught alike, so an
  operation that can raise returns an option: \<open>None\<close> is "an exception was raised".
\<close>

definition attr_get :: "json \<Rightarrow> string \<Rightarrow> json option" where
  \<comment> \<open>\<open>x.get(k)\<close>: only a dictionary has \<open>get\<close>.\<close>
  "attr_get x k = (case x of JDict kvs \<Rightarrow> Some (py_get kvs k) | _ \<Rightarrow> None)"

definition attr_get_default :: "json \<Rightarrow> string \<Rightarrow> json \<Rightarrow> json option" where
  \<comment> \<open>\<open>x.get(k, default)\<close>\<close>
  "attr_get_default x k dflt =
     (case x of
        JDict kvs \<Rightarrow> Some (case map_of kvs k of Some v \<Rightarrow> v | None \<Rightarrow> dflt)
      | _ \<Rightarrow> None)"

definition subscript_key :: "json \<Rightarrow> string \<Rightarrow> json option" where
  \<comment> \<open>\<open>x[k]\<close> for a string \<open>k\<close>: \<open>KeyError\<close> on a missing key, \<open>TypeError\<close> on what is no dictionary.\<close>
  "subscript_key x k = (case x of JDict kvs \<Rightarrow> map_of kvs k | _ \<Rightarrow> None)"

definition subscript_index :: "json \<Rightarrow> int \<Rightarrow> json option" where
  \<comment> \<open>\<open>x[i]\<close> for an integer \<open>i\<close>: a list or a string, negative indices from the end.\<close>
  "subscript_index x i =
     (case x of
        JList xs \<Rightarrow>
          (let n = int (length xs); j = (if i < 0 then n + i else i)
           in if 0 \<le> j \<and> j < n then Some (xs ! nat j) else None)
      | JStr s \<Rightarrow>
          (let n = int (length s); j = (if i < 0 then n + i else i)
           in if 0 \<le> j \<and> j < n then Some (JStr [s ! nat j]) else None)
      | _ \<Rightarrow> None)"

definition py_len :: "json \<Rightarrow> nat option" where
  "py_len x =
     (case x of
        JList xs \<Rightarrow> Some (length xs)
      | JDict kvs \<Rightarrow> Some (length kvs)
      | JStr s \<Rightarrow> Some (length s)
      | _ \<Rightarrow> None)"

definition py_iter :: "json \<Rightarrow> json list option" where
  \<comment> \<open>\<open>for e in x\<close>: the items of a list, the keys of a dictionary, the characters of a string.\<close>
  "py_iter x =
     (case x of
        JList xs \<Rightarrow> Some xs
      | JDict kvs \<Rightarrow> Some (map (\<lambda>kv. JStr (fst kv)) kvs)
      | JStr s \<Rightarrow> Some (map (\<lambda>c. JStr [c]) s)
      | _ \<Rightarrow> None)"

definition or_else :: "json option \<Rightarrow> json option \<Rightarrow> json option" where
  \<comment> \<open>\<open>a or b\<close> where evaluating an operand can raise; \<open>b\<close> counts only when \<open>a\<close> is falsy.\<close>
  "or_else a b = (case a of None \<Rightarrow> None | Some x \<Rightarrow> if truthy x then Some x else b)"

definition to_option :: "py_error + 'a \<Rightarrow> 'a option" where
  "to_option r = (case r of Inl e \<Rightarrow> None | Inr v \<Rightarrow> Some v)"

fun map_option_list :: "('a \<Rightarrow> 'b option) \<Rightarrow> 'a list \<Rightarrow> 'b list option" where
  \<comment> \<open>a loop or comprehension whose body can raise: the first exception ends it\<close>
  "map_option_list f [] = Some []"
| "map_option_list f (x # xs) =
     (case f x of
        None \<Rightarrow> None
      | Some y \<Rightarrow> (case map_option_list f xs of None \<Rightarrow> None | Some ys \<Rightarrow> Some (y # ys)))"

definition py_sum :: "json list \<Rightarrow> json option" where
  \<comment> \<open>\<open>sum(xs)\<close> starts from the integer 0: \<open>TypeError\<close> on an item that is no number.\<close>
  "py_sum xs = map_option (\<lambda>rs. JNum (sum_list rs)) (map_option_list num_value xs)"

definition py_mean :: "json list \<Rightarrow> json option" where
  \<comment> \<open>\<open>sum(xs) / len(xs)\<close> for a list that is not empty\<close>
  "py_mean xs = map_option (\<lambda>rs. JNum (sum_list rs / of_nat (length xs))) (map_option_list num_value xs)"

definition ge_zero :: "json \<Rightarrow> bool option" where
  \<comment> \<open>\<open>x >= 0\<close>: \<open>TypeError\<close> unless \<open>x\<close> is a number.\<close>
  "ge_zero x = map_option (\<lambda>r. 0 \<le> r) (num_value x)"

definition int_trunc :: "rat \<Rightarrow> rat" where
  \<comment> \<open>\<open>int(x)\<close> of a float: truncation towards zero.\<close>
  "int_trunc r = (if 0 \<le> r then of_int \<lfloor>r\<rfloor> else of_int \<lceil>r\<rceil>)"

text \<open>
  The library functions the aggregation calls, as parameters. A \<open>datetime\<close> in UTC is the
  instant it denotes, in seconds since the epoch.
\<close>

record pylib =
  fromtimestamp :: "rat \<Rightarrow> rat option"
    \<comment> \<open>\<open>datetime.fromtimestamp(x, tz=timezone.utc)\<close>, \<open>None\<close> when it raises\<close>
  strptime_utc :: "string \<Rightarrow> rat option"
    \<comment> \<open>\<open>datetime.strptime(s, '%Y-%m-%dT%H:%M:%S.%f')\<close>, read as UTC; \<open>None\<close> on \<open>ValueError\<close>\<close>
  isoformat :: "rat \<Rightarrow> string"
  format_value :: "json \<Rightarrow> string"
    \<comment> \<open>a value interpolated in an f-string\<close>
  format_0f :: "rat \<Rightarrow> string"
    \<comment> \<open>a number interpolated with \<open>:.0f\<close>\<close>
  max_other :: "json list \<Rightarrow> json option"
    \<comment> \<open>\<open>max\<close> of two or more values that are not all numbers (\<open>None\<close> when it raises)\<close>
  min_other :: "json list \<Rightarrow> json option"

definition strptime_json :: "pylib \<Rightarrow> json \<Rightarrow> rat option" where
  \<comment> \<open>\<open>strptime\<close> raises \<open>TypeError\<close> on what is no string.\<close>
  "strptime_json lib x = (case x of JStr s \<Rightarrow> strptime_utc lib s | _ \<Rightarrow> None)"

definition timestamp_ms_iso :: "pylib \<Rightarrow> json \<Rightarrow> json option" where
  \<comment> \<open>\<open>datetime.fromtimestamp(x / 1000, tz=timezone.utc).isoformat()\<close>\<close>
  "timestamp_ms_iso lib x =
     (case num_value x of
        None \<Rightarrow> None
      | Some ms \<Rightarrow> map_option (\<lambda>t. JStr (isoformat lib t)) (fromtimestamp lib (ms / 1000)))"

definition safe_convert_opt :: "json \<Rightarrow> (json \<Rightarrow> py_error + json) \<Rightarrow> json option" where
  "safe_convert_opt v conversion_func = to_option (safe_convert v conversion_func)"

fun first_max :: "rat \<Rightarrow> json \<Rightarrow> json list \<Rightarrow> json" where
  \<comment> \<open>\<open>max\<close> keeps the first of the largest items\<close>
  "first_max best b [] = b"
| "first_max best b (x # xs) =
     (case num_value x of
        Some r \<Rightarrow> if best < r then first_max r x xs else first_max best b xs
      | None \<Rightarrow> b)"

fun first_min :: "rat \<Rightarrow> json \<Rightarrow> json list \<Rightarrow> json" where
  "first_min best b [] = b"
| "first_min best b (x # xs) =
     (case num_value x of
        Some r \<Rightarrow> if r < best then first_min r x xs else first_min best b xs
      | None \<Rightarrow> b)"

definition py_max :: "pylib \<Rightarrow> json list \<Rightarrow> json option" where
  \<comment> \<open>\<open>max(xs, default=None)\<close>\<close>
  "py_max lib xs =
     (case xs of
        [] \<Rightarrow> Some JNull
      | [x] \<Rightarrow> Some x
      | x # ys \<Rightarrow>
          (case num_value x of
             Some r \<Rightarrow> if list_all (\<lambda>y. num_value y \<noteq> None) ys then Some (first_max r x ys)
                       else max_other lib xs
           | None \<Rightarrow> max_other lib xs))"

definition py_min :: "pylib \<Rightarrow> json list \<Rightarrow> json option" where
  "py_min lib xs =
     (case xs of
        [] \<Rightarrow> Some JNull
      | [x] \<Rightarrow> Some x
      | x # ys \<Rightarrow>
          (case num_value x of
             Some r \<Rightarrow> if list_all (\<lambda>y. num_value y \<noteq> None) ys then Some (first_min r x ys)
                       else min_other lib xs
           | None \<Rightarrow> min_other lib xs))"

text \<open>
  Statements of a \<open>try\<close> block that append as they go: the entries appended so far, and
  whether the statements ran to their end (\<open>False\<close>: an exception ended them). What was
  appended before the exception stays appended.
\<close>

type_synonym appends = "(string \<times> json) list"

definition then_do :: "appends \<times> bool \<Rightarrow> appends \<times> bool \<Rightarrow> appends \<times> bool" where
  "then_do p q = (if snd p then (fst p @ fst q, snd q) else (fst p, False))"

definition raised :: "appends \<times> bool" where
  "raised = ([], False)"

definition done_with :: "appends \<Rightarrow> appends \<times> bool" where
  "done_with l = (l, True)"

fun for_each :: "('a \<Rightarrow> appends \<times> bool) \<Rightarrow> 'a list \<Rightarrow> appends \<times> bool" where
  "for_each body [] = ([], True)"
| "for_each body (x # xs) = then_do (body x) (for_each body xs)"

definition append_if :: "string \<Rightarrow> json option \<Rightarrow> appends" where
  \<comment> \<open>a block that appends one entry at its end, or nothing (also when it raised)\<close>
  "append_if metric e = (case e of Some entry \<Rightarrow> [(metric, entry)] | None \<Rightarrow> [])"
section \<open>The aggregation of health metrics\<close>

text \<open>
  The calls of the provider's client made by \<open>get_health_and_wellness\<close>, one constructor
  for each place of the source that calls it. The training readiness is fetched in three
  blocks and the training status in two; these are calls of their own, and nothing assumes
  that the provider answers them alike. \<open>daily c d\<close> is the answer of call \<open>c\<close> for the
  date \<open>d\<close>, \<open>once c\<close> that of a call made before the loop; \<open>None\<close> is a call that raises.
\<close>

datatype daily_call =
    User_summary | Hydration_data | Floors | Fitnessage_data | Heart_rates | Sleep_data
  | Stress_data | Respiration_data | Spo2_data | Intensity_minutes_data | Training_readiness
  | Training_status | Max_metrics | Vo2max_graphql | Hrv_data | Endurance_score | Hill_score
  | Blood_pressure | Body_battery | Menstrual_data | Menstrual_calendar_data | Body_composition
  | Readiness_for_recovery | Status_for_load | Readiness_for_acute_load

datatype once_call = Lactate_threshold | Race_predictions | Pregnancy_summary

record health_client =
  daily :: "daily_call \<Rightarrow> string \<Rightarrow> json option"
  once :: "once_call \<Rightarrow> json option"

definition ALL_HEALTH_METRICS :: "string list" where
  "ALL_HEALTH_METRICS =
     [''steps'', ''total_distance'', ''highly_active_seconds'', ''active_seconds'', ''sedentary_seconds'',
      ''heart_rates'', ''sleep'', ''stress'', ''respiration'', ''spo2'',
      ''intensity_minutes'', ''training_readiness'', ''training_status'', ''max_metrics'',
      ''hrv'', ''lactate_threshold'', ''endurance_score'', ''hill_score'', ''race_predictions'',
      ''blood_pressure'', ''body_battery'', ''menstrual_data'', ''floors'', ''fitness_age'',
      ''body_composition'', ''hydration'',
      ''recovery_time'', ''training_load'', ''acute_load'']"

text \<open>
  \<open>health_data\<close> is a dictionary whose keys are \<open>ALL_HEALTH_METRICS\<close> from its creation
  on; only the lists it holds grow. It is kept as the function from a key to its list.
  \<open>health_data[metric].append(entry)\<close> raises \<open>KeyError\<close> for any other key, which ends the
  \<open>try\<close> block it stands in.
\<close>

type_synonym health_data = "string \<Rightarrow> json list"

fun apply_appends :: "appends \<Rightarrow> health_data \<Rightarrow> health_data" where
  "apply_appends [] h = h"
| "apply_appends ((metric, entry) # l) h =
     (if metric \<in> set ALL_HEALTH_METRICS then apply_appends l (h(metric := h metric @ [entry]))
      else h)"

subsection \<open>The calls made once, before the loop\<close>

definition lactate_threshold_entry :: "string \<Rightarrow> json \<Rightarrow> json option" where
  "lactate_threshold_entry start_date lactate_threshold_data =
     (if \<not> truthy lactate_threshold_data then None
      else do {
        shr \<leftarrow> attr_get_default lactate_threshold_data ''speed_and_heart_rate'' (JDict []);
        hr \<leftarrow> attr_get shr ''heartRate'';
        Some (JDict [(''date'', JStr start_date), (''lactate_threshold_hr'', hr)])
      })"

definition race_type_map :: "(string \<times> string) list" where
  "race_type_map =
     [(''FIVE_K'', ''race_prediction_5k''), (''TEN_K'', ''race_prediction_10k''),
      (''HALF_MARATHON'', ''race_prediction_half_marathon''),
      (''MARATHON'', ''race_prediction_marathon'')]"

fun race_entry_loop :: "json list \<Rightarrow> (string \<times> json) list \<Rightarrow> (string \<times> json) list option" where
  "race_entry_loop [] race_entry = Some race_entry"
| "race_entry_loop (prediction # predictions) race_entry =
     (case attr_get prediction ''raceType'' of
        None \<Rightarrow> None
      | Some (JList xs) \<Rightarrow> None
      | Some (JDict kvs) \<Rightarrow> None
      | Some (JStr race_type) \<Rightarrow>
          (case map_of race_type_map race_type of
             None \<Rightarrow> race_entry_loop predictions race_entry
           | Some field \<Rightarrow>
               (case attr_get prediction ''predictedTime'' of
                  None \<Rightarrow> None
                | Some t \<Rightarrow> race_entry_loop predictions (AList.update field t race_entry)))
      | Some other \<Rightarrow> race_entry_loop predictions race_entry)"

definition race_predictions_entry :: "string \<Rightarrow> json \<Rightarrow> json option" where
  "race_predictions_entry start_date race_predictions_data =
     (if \<not> truthy race_predictions_data then None
      else do {
        l \<leftarrow> attr_get_default race_predictions_data ''racePredictionList'' (JList []);
        predictions \<leftarrow> py_iter l;
        race_entry \<leftarrow> race_entry_loop predictions [(''date'', JStr start_date)];
        if length race_entry > 1 then Some (JDict race_entry) else None
      })"

definition pregnancy_summary_entry :: "string \<Rightarrow> json \<Rightarrow> json option" where
  "pregnancy_summary_entry start_date pregnancy_summary_data =
     (if truthy pregnancy_summary_data
      then Some (JDict [(''date'', JStr start_date), (''data'', pregnancy_summary_data)])
      else None)"

definition once_blocks :: "health_client \<Rightarrow> string list \<Rightarrow> string \<Rightarrow> appends" where
  "once_blocks garmin metric_types_to_fetch start_date =
     (if ''lactate_threshold'' \<in> set metric_types_to_fetch
      then append_if ''lactate_threshold''
             (once garmin Lactate_threshold \<bind> lactate_threshold_entry start_date)
      else [])
     @ (if ''race_predictions'' \<in> set metric_types_to_fetch
        then append_if ''race_predictions''
               (once garmin Race_predictions \<bind> race_predictions_entry start_date)
        else [])
     @ (if ''pregnancy_summary'' \<in> set metric_types_to_fetch
        then append_if ''pregnancy_summary''
               (once garmin Pregnancy_summary \<bind> pregnancy_summary_entry start_date)
        else [])"

subsection \<open>The daily summary\<close>

text \<open>
  One call serves six metrics. The log line before the test of \<open>summary_data\<close> takes its
  \<open>keys()\<close>, so a truthy answer that is no dictionary raises there. The entries are
  appended one after the other; a conversion that raises ends the block and leaves the
  earlier entries appended.
\<close>

definition dated_value :: "string \<Rightarrow> json \<Rightarrow> json" where
  "dated_value current_date v = JDict [(''date'', JStr current_date), (''value'', v)]"

definition converted_part ::
  "string list \<Rightarrow> string \<Rightarrow> string \<Rightarrow> json \<Rightarrow> (json \<Rightarrow> py_error + json) \<Rightarrow> appends \<times> bool" where
  "converted_part metric_types_to_fetch metric current_date v conversion_func =
     (if metric \<in> set metric_types_to_fetch then
        (case safe_convert_opt v conversion_func of
           None \<Rightarrow> raised
         | Some c \<Rightarrow> done_with [(metric, dated_value current_date c)])
      else done_with [])"

definition summary_body_battery :: "string \<Rightarrow> (string \<times> json) list \<Rightarrow> appends" where
  "summary_body_battery current_date summary_data =
     (let bb_highest = py_get summary_data ''bodyBatteryHighestValue'';
          bb_lowest = py_get summary_data ''bodyBatteryLowestValue'';
          bb_at_wake = py_get summary_data ''bodyBatteryAtWakeTime'';
          bb_charged = py_get summary_data ''bodyBatteryChargedValue'';
          bb_drained = py_get summary_data ''bodyBatteryDrainedValue'';
          bb_current = py_get summary_data ''bodyBatteryMostRecentValue''
      in if list_ex truthy [bb_highest, bb_lowest, bb_at_wake, bb_charged, bb_drained] then
           [(''body_battery'',
             JDict [(''date'', JStr current_date),
                    (''body_battery_highest'', bb_highest),
                    (''body_battery_lowest'', bb_lowest),
                    (''body_battery_at_wake'', bb_at_wake),
                    (''body_battery_charged'', bb_charged),
                    (''body_battery_drained'', bb_drained),
                    (''body_battery_current'', bb_current)])]
         else [])"

definition summary_metrics :: "string list" where
  "summary_metrics =
     [''steps'', ''total_distance'', ''highly_active_seconds'', ''active_seconds'',
      ''sedentary_seconds'', ''body_battery'']"

definition summary_block :: "string list \<Rightarrow> string \<Rightarrow> json option \<Rightarrow> appends" where
  "summary_block metric_types_to_fetch current_date response =
     (if \<not> list_ex (\<lambda>metric. metric \<in> set metric_types_to_fetch) summary_metrics then []
      else case response of
        Some (JDict summary_data) \<Rightarrow>
          if summary_data = [] then []
          else fst
            (then_do
               (done_with
                  (if ''steps'' \<in> set metric_types_to_fetch
                   then [(''steps'', dated_value current_date (py_get summary_data ''totalSteps''))]
                   else []))
            (then_do
               (converted_part metric_types_to_fetch ''total_distance'' current_date
                  (py_or (py_or (py_get summary_data ''totalDistance'')
                                (py_get summary_data ''totalDistanceMeters''))
                         (py_get summary_data ''distance''))
                  meters_to_km)
            (then_do
               (converted_part metric_types_to_fetch ''highly_active_seconds'' current_date
                  (py_get summary_data ''highlyActiveSeconds'') seconds_to_minutes)
            (then_do
               (converted_part metric_types_to_fetch ''active_seconds'' current_date
                  (py_get summary_data ''activeSeconds'') seconds_to_minutes)
            (then_do
               (converted_part metric_types_to_fetch ''sedentary_seconds'' current_date
                  (py_get summary_data ''sedentarySeconds'') seconds_to_minutes)
               (done_with
                  (if ''body_battery'' \<in> set metric_types_to_fetch
                   then summary_body_battery current_date summary_data
                   else [])))))))
      | _ \<Rightarrow> [])"

subsection \<open>Blocks that append one entry\<close>

text \<open>
  Each of these is the body of one \<open>try\<close> block, from the answer of its call to the
  entry it appends: \<open>None\<close> when the block appends nothing, because the answer does not
  qualify or because a statement raised.
\<close>

definition hydration_entry :: "string \<Rightarrow> json \<Rightarrow> json option" where
  "hydration_entry current_date hydration_data =
     (if \<not> truthy hydration_data then None
      else do {
        v \<leftarrow> attr_get hydration_data ''valueInML'';
        if v \<noteq> JNull then Some (JDict [(''date'', JStr current_date), (''hydration'', v)]) else None
      })"

definition floor_column :: "int \<Rightarrow> json list \<Rightarrow> json option" where
  \<comment> \<open>\<open>sum(entry[i] for entry in floor_values if len(entry) > i and entry[i] is not None)\<close>\<close>
  "floor_column i floor_values = do {
     picked \<leftarrow> map_option_list
       (\<lambda>entry. do {
          n \<leftarrow> py_len entry;
          if int n > i then do {
            v \<leftarrow> subscript_index entry i;
            Some (if v \<noteq> JNull then [v] else [])
          } else Some []
        }) floor_values;
     py_sum (concat picked)
   }"

definition floors_entry :: "string \<Rightarrow> json \<Rightarrow> json option" where
  "floors_entry current_date floors_data =
     (if \<not> truthy floors_data then None
      else do {
        a1 \<leftarrow> attr_get floors_data ''totalFloorsAscended'';
        a2 \<leftarrow> attr_get floors_data ''floorsAscended'';
        d1 \<leftarrow> attr_get floors_data ''totalFloorsDescended'';
        d2 \<leftarrow> attr_get floors_data ''floorsDescended'';
        fva \<leftarrow> attr_get floors_data ''floorValuesArray'';
        (ascended, descended) \<leftarrow>
          (if py_or a1 a2 = JNull \<and> truthy fva then do {
             floor_values \<leftarrow> py_iter fva;
             a \<leftarrow> floor_column 2 floor_values;
             d \<leftarrow> floor_column 3 floor_values;
             Some (a, d)
           } else Some (py_or a1 a2, py_or d1 d2));
        if ascended \<noteq> JNull \<or> descended \<noteq> JNull then
          Some (JDict [(''date'', JStr current_date), (''floors_ascended'', ascended),
                       (''floors_descended'', descended)])
        else None
      })"

definition fitness_age_entry :: "string \<Rightarrow> json \<Rightarrow> json option" where
  "fitness_age_entry current_date fitness_age_data =
     (if \<not> truthy fitness_age_data then None
      else do {
        a \<leftarrow> attr_get fitness_age_data ''fitnessAge'';
        b \<leftarrow> attr_get fitness_age_data ''chronologicalAge'';
        c \<leftarrow> attr_get fitness_age_data ''achievableFitnessAge'';
        Some (JDict [(''date'', JStr current_date), (''fitness_age'', a),
                     (''chronological_age'', b), (''achievable_fitness_age'', c)])
      })"

definition heart_rates_entry :: "pylib \<Rightarrow> string \<Rightarrow> json \<Rightarrow> json option" where
  "heart_rates_entry lib current_date response = do {
     v \<leftarrow> attr_get response ''heartRateValues'';
     hr_list \<leftarrow> py_iter (py_or v (JList []));
     samples \<leftarrow> map_option_list
       (\<lambda>entry. do {
          x \<leftarrow> subscript_index entry 1;
          if truthy x then do {
            t0 \<leftarrow> subscript_index entry 0;
            t \<leftarrow> timestamp_ms_iso lib t0;
            Some [JDict [(''time'', t), (''data'', x)]]
          } else Some []
        }) hr_list;
     Some (JDict [(''date'', JStr current_date), (''HeartRate'', JList (concat samples))])
   }"
subsection \<open>Sleep\<close>

text \<open>
  Bedtime and wake time: from the two timestamps of the daily summary when both are truthy,
  otherwise from the first start and the last end of the stage events sorted by their
  start (the sort is stable). \<open>Some None\<close> is "no times, skip the entry".
\<close>

definition sleep_times :: "pylib \<Rightarrow> (string \<times> json) list \<Rightarrow> (string \<times> json) list \<Rightarrow> (rat \<times> rat) option option" where
  "sleep_times lib sleep_data_raw sleep_summary =
     (if truthy (py_get sleep_summary ''sleepStartTimestampGMT'')
         \<and> truthy (py_get sleep_summary ''sleepEndTimestampGMT'') then do {
        s \<leftarrow> num_value (py_get sleep_summary ''sleepStartTimestampGMT'');
        bedtime_dt \<leftarrow> fromtimestamp lib (s / 1000);
        e \<leftarrow> num_value (py_get sleep_summary ''sleepEndTimestampGMT'');
        wake_time_dt \<leftarrow> fromtimestamp lib (e / 1000);
        Some (Some (bedtime_dt, wake_time_dt))
      } else
        (let stage_events_raw = (case map_of sleep_data_raw ''sleepLevels'' of
                                   Some v \<Rightarrow> v | None \<Rightarrow> JList [])
         in if \<not> truthy stage_events_raw then Some None
            else do {
              events \<leftarrow> py_iter stage_events_raw;
              keyed \<leftarrow> map_option_list
                (\<lambda>x. do {
                   s \<leftarrow> subscript_key x ''startGMT'';
                   k \<leftarrow> strptime_json lib s;
                   Some (k, x)
                 }) events;
              (let sorted_stages = map snd (sort_key fst keyed)
               in if sorted_stages = [] then Some None
                  else do {
                    s \<leftarrow> subscript_key (hd sorted_stages) ''startGMT'';
                    bedtime_dt \<leftarrow> strptime_json lib s;
                    e \<leftarrow> subscript_key (last sorted_stages) ''endGMT'';
                    wake_time_dt \<leftarrow> strptime_json lib e;
                    Some (Some (bedtime_dt, wake_time_dt))
                  })
            }))"

text \<open>
  The table from \<open>activityLevel\<close> to the stage type. The lookup is by Python's equality
  and hash, so a number or boolean equal to 0, 1, 2 or 3 finds its stage and every other
  hashable value finds \<open>unknown\<close>; a list or a dictionary cannot be hashed.
\<close>

definition stage_type_of :: "json \<Rightarrow> string option" where
  "stage_type_of activity_level =
     (case activity_level of
        JList xs \<Rightarrow> None
      | JDict kvs \<Rightarrow> None
      | _ \<Rightarrow>
          (case num_value activity_level of
             Some r \<Rightarrow>
               Some (if r = 0 then ''deep'' else if r = 1 then ''light''
                     else if r = 2 then ''rem'' else if r = 3 then ''awake'' else ''unknown'')
           | None \<Rightarrow> Some ''unknown''))"

text \<open>
  One stage event of \<open>sleepLevels\<close>: its type and its duration in whole seconds, or
  \<open>Some None\<close> for an event without \<open>activityLevel\<close>, which is passed over.
\<close>

definition stage_event :: "pylib \<Rightarrow> json \<Rightarrow> (string \<times> rat \<times> json) option option" where
  "stage_event lib entry = do {
     level \<leftarrow> attr_get entry ''activityLevel'';
     if level = JNull then Some None
     else do {
       s \<leftarrow> subscript_key entry ''startGMT'';
       start_time_dt \<leftarrow> strptime_json lib s;
       e \<leftarrow> subscript_key entry ''endGMT'';
       end_time_dt \<leftarrow> strptime_json lib e;
       stage_type \<leftarrow> stage_type_of level;
       (let duration_in_seconds_stage = int_trunc (end_time_dt - start_time_dt)
        in Some (Some (stage_type, duration_in_seconds_stage,
                   JDict [(''stage_type'', JStr stage_type),
                          (''start_time'', JStr (isoformat lib start_time_dt)),
                          (''end_time'', JStr (isoformat lib end_time_dt)),
                          (''duration_in_seconds'', JNum duration_in_seconds_stage)])))
     }
   }"

text \<open>
  The four stage totals. They start from the daily summary's counts (\<open>x or 0\<close>); when
  deep, light and rem are all 0 (\<open>needs_stage_sum\<close>), the duration of every event is
  added to the total of its stage. \<open>x + duration\<close> needs a number.
\<close>

record stage_totals =
  deep_sleep_seconds :: json
  light_sleep_seconds :: json
  rem_sleep_seconds :: json
  awake_sleep_seconds :: json

definition add_seconds :: "json \<Rightarrow> rat \<Rightarrow> json option" where
  "add_seconds acc duration = map_option (\<lambda>r. JNum (r + duration)) (num_value acc)"

fun add_stage :: "stage_totals \<Rightarrow> string \<times> rat \<Rightarrow> stage_totals option" where
  "add_stage totals (stage_type, duration) =
     (if stage_type = ''deep'' then
        map_option (\<lambda>v. totals\<lparr>deep_sleep_seconds := v\<rparr>) (add_seconds (deep_sleep_seconds totals) duration)
      else if stage_type = ''light'' then
        map_option (\<lambda>v. totals\<lparr>light_sleep_seconds := v\<rparr>) (add_seconds (light_sleep_seconds totals) duration)
      else if stage_type = ''rem'' then
        map_option (\<lambda>v. totals\<lparr>rem_sleep_seconds := v\<rparr>) (add_seconds (rem_sleep_seconds totals) duration)
      else if stage_type = ''awake'' then
        map_option (\<lambda>v. totals\<lparr>awake_sleep_seconds := v\<rparr>) (add_seconds (awake_sleep_seconds totals) duration)
      else Some totals)"

fun add_stages :: "stage_totals \<Rightarrow> (string \<times> rat) list \<Rightarrow> stage_totals option" where
  "add_stages totals [] = Some totals"
| "add_stages totals (ev # evs) =
     (case add_stage totals ev of None \<Rightarrow> None | Some totals' \<Rightarrow> add_stages totals' evs)"

definition summary_totals :: "(string \<times> json) list \<Rightarrow> stage_totals" where
  "summary_totals sleep_summary =
     \<lparr>deep_sleep_seconds = py_or (py_get sleep_summary ''deepSleepSeconds'') (JNum 0),
      light_sleep_seconds = py_or (py_get sleep_summary ''lightSleepSeconds'') (JNum 0),
      rem_sleep_seconds = py_or (py_get sleep_summary ''remSleepSeconds'') (JNum 0),
      awake_sleep_seconds =
        py_or (py_or (py_get sleep_summary ''awakeSleepSeconds'')
                     (py_get sleep_summary ''awakeDuringSleepSeconds'')) (JNum 0)\<rparr>"

definition needs_stage_sum :: "stage_totals \<Rightarrow> bool" where
  "needs_stage_sum totals \<longleftrightarrow>
     deep_sleep_seconds totals = JNum 0 \<and> light_sleep_seconds totals = JNum 0
     \<and> rem_sleep_seconds totals = JNum 0"

definition stage_events_of :: "pylib \<Rightarrow> json \<Rightarrow> (string \<times> rat \<times> json) list option" where
  \<comment> \<open>the loop over a truthy \<open>sleepLevels\<close>: type, duration and emitted record of each event\<close>
  "stage_events_of lib sleep_levels_intraday = do {
     entries \<leftarrow> py_iter sleep_levels_intraday;
     evs \<leftarrow> map_option_list (stage_event lib) entries;
     Some (concat (map (\<lambda>ev. case ev of None \<Rightarrow> [] | Some e \<Rightarrow> [e]) evs))
   }"

definition stage_durations :: "(string \<times> rat \<times> json) list \<Rightarrow> (string \<times> rat) list" where
  "stage_durations staged = map (\<lambda>(stage_type, duration, record). (stage_type, duration)) staged"

definition reconcile_stages ::
  "pylib \<Rightarrow> (string \<times> json) list \<Rightarrow> json \<Rightarrow> (stage_totals \<times> json list) option" where
  "reconcile_stages lib sleep_summary sleep_levels_intraday =
     (let totals = summary_totals sleep_summary
      in if \<not> truthy sleep_levels_intraday then Some (totals, [])
         else do {
           staged \<leftarrow> stage_events_of lib sleep_levels_intraday;
           totals' \<leftarrow> (if needs_stage_sum totals
                        then add_stages totals (stage_durations staged)
                        else Some totals);
           Some (totals', map (\<lambda>(stage_type, duration, record). record) staged)
         })"

definition py_add :: "json \<Rightarrow> json \<Rightarrow> json option" where
  \<comment> \<open>\<open>a + b\<close>: numbers add, two strings or two lists concatenate, anything else raises.\<close>
  "py_add a b =
     (case (num_value a, num_value b) of
        (Some r, Some s) \<Rightarrow> Some (JNum (r + s))
      | _ \<Rightarrow>
          (case (a, b) of
             (JStr s, JStr t) \<Rightarrow> Some (JStr (s @ t))
           | (JList xs, JList ys) \<Rightarrow> Some (JList (xs @ ys))
           | _ \<Rightarrow> None))"

definition time_asleep :: "stage_totals \<Rightarrow> json option" where
  \<comment> \<open>deep + light + rem\<close>
  "time_asleep totals = do {
     dl \<leftarrow> py_add (deep_sleep_seconds totals) (light_sleep_seconds totals);
     py_add dl (rem_sleep_seconds totals)
   }"

definition sleep_score :: "(string \<times> json) list \<Rightarrow> json option" where
  \<comment> \<open>\<open>((sleep_summary.get("sleepScores") or {}).get("overall") or {}).get("value")\<close>\<close>
  "sleep_score sleep_summary = do {
     overall \<leftarrow> attr_get (py_or (py_get sleep_summary ''sleepScores'') (JDict [])) ''overall'';
     attr_get (py_or overall (JDict [])) ''value''
   }"

definition positive :: "json \<Rightarrow> bool option" where
  \<comment> \<open>\<open>x is not None and x > 0\<close>\<close>
  "positive x = (if x = JNull then Some False else map_option (\<lambda>r. 0 < r) (num_value x))"

definition sleep_entry :: "pylib \<Rightarrow> string \<Rightarrow> json \<Rightarrow> json option" where
  "sleep_entry lib current_date sleep_data_raw =
     (case sleep_data_raw of
        JDict raw \<Rightarrow>
          if raw = [] then None
          else
            (case (case map_of raw ''dailySleepDTO'' of Some v \<Rightarrow> v | None \<Rightarrow> JDict []) of
               JDict sleep_summary \<Rightarrow> do {
                 times \<leftarrow> sleep_times lib raw sleep_summary;
                 (case times of
                    None \<Rightarrow> None
                  | Some (bedtime_dt, wake_time_dt) \<Rightarrow> do {
                      score \<leftarrow> sleep_score sleep_summary;
                      (totals, stage_events) \<leftarrow>
                        reconcile_stages lib sleep_summary (py_get raw ''sleepLevels'');
                      asleep \<leftarrow> time_asleep totals;
                      (let duration_in_seconds =
                             (if py_get sleep_summary ''sleepTimeSeconds'' = JNull
                              then JNum (int_trunc (wake_time_dt - bedtime_dt))
                              else py_get sleep_summary ''sleepTimeSeconds'')
                       in do {
                         valid \<leftarrow> positive duration_in_seconds;
                         if valid then
                           Some (JDict
                             [(''entry_date'', JStr current_date),
                              (''bedtime'', JStr (isoformat lib bedtime_dt)),
                              (''wake_time'', JStr (isoformat lib wake_time_dt)),
                              (''duration_in_seconds'', duration_in_seconds),
                              (''time_asleep_in_seconds'', asleep),
                              (''source'', JStr ''garmin''),
                              (''sleep_score'', score),
                              (''deep_sleep_seconds'', deep_sleep_seconds totals),
                              (''light_sleep_seconds'', light_sleep_seconds totals),
                              (''rem_sleep_seconds'', rem_sleep_seconds totals),
                              (''awake_sleep_seconds'', awake_sleep_seconds totals),
                              (''average_spo2_value'', py_get sleep_summary ''averageSpO2Value''),
                              (''lowest_spo2_value'', py_get sleep_summary ''lowestSpO2Value''),
                              (''highest_spo2_value'', py_get sleep_summary ''highestSpO2Value''),
                              (''average_respiration_value'', py_get sleep_summary ''averageRespirationValue''),
                              (''lowest_respiration_value'', py_get sleep_summary ''lowestRespirationValue''),
                              (''highest_respiration_value'', py_get sleep_summary ''highestRespirationValue''),
                              (''awake_count'', py_get sleep_summary ''awakeCount''),
                              (''avg_sleep_stress'', py_get sleep_summary ''avgSleepStress''),
                              (''restless_moments_count'', py_get raw ''restlessMomentsCount''),
                              (''avg_overnight_hrv'', py_get raw ''avgOvernightHrv''),
                              (''body_battery_change'', py_get raw ''bodyBatteryChange''),
                              (''resting_heart_rate'', py_get raw ''restingHeartRate''),
                              (''stage_events'', JList stage_events)])
                         else None
                       })
                    })
               }
             | _ \<Rightarrow> None)
      | _ \<Rightarrow> None)"

subsection \<open>Stress\<close>

definition stress_samples :: "pylib \<Rightarrow> int \<Rightarrow> json list \<Rightarrow> (json list \<times> json list) option" where
  \<comment> \<open>the loop over a values array: the dated samples and the valid values, column \<open>i\<close>\<close>
  "stress_samples lib i values = do {
     rows \<leftarrow> map_option_list
       (\<lambda>entry. do {
          v \<leftarrow> subscript_index entry i;
          if v = JNull then Some []
          else do {
            ok \<leftarrow> ge_zero v;
            if ok then do {
              t0 \<leftarrow> subscript_index entry 0;
              t \<leftarrow> timestamp_ms_iso lib t0;
              Some [(JDict [(''time'', t), (''stress_level'', v)], v)]
            } else Some []
          }
        }) values;
     Some (map fst (concat rows), map snd (concat rows))
   }"

definition derived_mood :: "pylib \<Rightarrow> json list \<Rightarrow> (json \<times> json) option" where
  \<comment> \<open>the derived mood value and notes, from the valid stress values\<close>
  "derived_mood lib valid_stress_values =
     (if valid_stress_values = [] then Some (JNull, JNull)
      else do {
        avg \<leftarrow> py_mean valid_stress_values;
        average_stress \<leftarrow> num_value avg;
        (case map_garmin_stress_to_mood (Some average_stress) of
           (Some derived_mood_value, Some derived_mood_category) \<Rightarrow>
             Some (JNum (of_int derived_mood_value),
                   JStr (''Derived from Garmin Stress: Average '' @ format_0f lib average_stress
                         @ '' ('' @ derived_mood_category @ '')''))
         | _ \<Rightarrow> Some (JNull, JNull))
      })"

definition stress_entry :: "pylib \<Rightarrow> string \<Rightarrow> json \<Rightarrow> json option" where
  "stress_entry lib current_date stress_response = do {
     sv \<leftarrow> attr_get stress_response ''stressValuesArray'';
     bv \<leftarrow> attr_get stress_response ''bodyBatteryValuesArray'';
     stress_list \<leftarrow> py_iter (py_or sv (JList []));
     (stress_level, valid_stress_values) \<leftarrow> stress_samples lib 1 stress_list;
     bb_list \<leftarrow> py_iter (py_or bv (JList []));
     (body_battery_level, bb_values) \<leftarrow> stress_samples lib 2 bb_list;
     (derived_mood_value, derived_mood_notes) \<leftarrow> derived_mood lib valid_stress_values;
     if stress_level \<noteq> [] \<or> derived_mood_value \<noteq> JNull then
       Some (JDict [(''date'', JStr current_date),
                    (''stressLevel'', JList stress_level),
                    (''BodyBatteryLevel'', JList body_battery_level),
                    (''raw_stress_data'', JList stress_level),
                    (''derived_mood_value'', derived_mood_value),
                    (''derived_mood_notes'', derived_mood_notes)])
     else None
   }"
subsection \<open>Further blocks that append one entry\<close>

definition respiration_entry :: "string \<Rightarrow> json \<Rightarrow> json option" where
  "respiration_entry current_date respiration_data =
     (if \<not> truthy respiration_data then None
      else do {
        sleep_resp \<leftarrow> attr_get respiration_data ''avgSleepRespirationValue'';
        awake_resp \<leftarrow> attr_get respiration_data ''avgWakingRespirationValue'';
        avg_resp \<leftarrow> attr_get respiration_data ''avgRespiration'';
        if truthy sleep_resp \<or> truthy awake_resp \<or> truthy avg_resp then
          Some (JDict [(''date'', JStr current_date),
                       (''sleep_respiration_avg'', sleep_resp),
                       (''awake_respiration_avg'', awake_resp),
                       (''average_respiration_rate'', py_or (py_or avg_resp sleep_resp) awake_resp)])
        else None
      })"

text \<open>
  SpO2. The average is looked for under four names, then in \<open>dailySpO2Values\<close>, then in
  \<open>allDaySpO2\<close>, and last in the sleep entry that this date's sleep block appended:
  \<open>sleep_fallback\<close> is the \<open>average_spo2_value\<close> of the first entry of
  \<open>health_data["sleep"]\<close> with this \<open>entry_date\<close> and a truthy value.
\<close>

definition sleep_fallback :: "string \<Rightarrow> json list \<Rightarrow> json" where
  "sleep_fallback current_date sleep_entries =
     (case filter (\<lambda>e.
              attr_get e ''entry_date'' = Some (JStr current_date)
              \<and> (case attr_get e ''average_spo2_value'' of
                    Some v \<Rightarrow> truthy v | None \<Rightarrow> False)) sleep_entries of
        [] \<Rightarrow> JNull
      | found # rest \<Rightarrow>
          (case attr_get found ''average_spo2_value'' of Some v \<Rightarrow> v | None \<Rightarrow> JNull))"

definition spo2_from_daily_values :: "json \<Rightarrow> json \<Rightarrow> json option" where
  "spo2_from_daily_values avg_spo2 daily_values =
     (if truthy avg_spo2 \<or> \<not> truthy daily_values then Some avg_spo2
      else do {
        vs \<leftarrow> py_iter daily_values;
        readings \<leftarrow> map_option_list
          (\<lambda>v. do {
             a \<leftarrow> attr_get v ''spO2'';
             b \<leftarrow> attr_get v ''value'';
             Some (if truthy (py_or a b) then [py_or a b] else [])
           }) vs;
        if concat readings = [] then Some avg_spo2 else py_mean (concat readings)
      })"

definition spo2_from_all_day :: "json \<Rightarrow> json \<Rightarrow> json option" where
  "spo2_from_all_day avg_spo2 all_day =
     (if truthy avg_spo2 \<or> \<not> truthy all_day then Some avg_spo2
      else do {
        a \<leftarrow> attr_get all_day ''averageValue'';
        b \<leftarrow> attr_get all_day ''avg'';
        c \<leftarrow> attr_get all_day ''avgSpO2'';
        Some (py_or (py_or a b) c)
      })"

definition spo2_entry :: "string \<Rightarrow> json \<Rightarrow> json \<Rightarrow> json option" where
  "spo2_entry current_date fallback spo2_data = do {
     avg_spo2 \<leftarrow>
       (if \<not> truthy spo2_data then Some JNull
        else do {
          a \<leftarrow> attr_get spo2_data ''avgSpO2'';
          b \<leftarrow> attr_get spo2_data ''averageSpO2'';
          c \<leftarrow> attr_get spo2_data ''average'';
          e \<leftarrow> attr_get spo2_data ''latestSpO2Value'';
          dv \<leftarrow> attr_get spo2_data ''dailySpO2Values'';
          ad \<leftarrow> attr_get spo2_data ''allDaySpO2'';
          v1 \<leftarrow> spo2_from_daily_values (py_or (py_or (py_or a b) c) e) dv;
          spo2_from_all_day v1 ad
        });
     (let avg = (if \<not> truthy avg_spo2 \<and> truthy fallback then fallback else avg_spo2)
      in if truthy avg then Some (JDict [(''date'', JStr current_date), (''average_spo2'', avg)])
         else None)
   }"

definition intensity_minutes_entry :: "string \<Rightarrow> json \<Rightarrow> json option" where
  "intensity_minutes_entry current_date intensity_minutes_data =
     (if \<not> truthy intensity_minutes_data then None
      else do {
        v \<leftarrow> attr_get intensity_minutes_data ''total'';
        Some (JDict [(''date'', JStr current_date), (''total_intensity_minutes'', v)])
      })"

definition training_readiness_entry :: "string \<Rightarrow> json \<Rightarrow> json option" where
  "training_readiness_entry current_date training_readiness_data =
     (case training_readiness_data of
        JList (first_item # rest) \<Rightarrow> do {
          a \<leftarrow> attr_get first_item ''score'';
          b \<leftarrow> attr_get first_item ''trainingReadinessScore'';
          c \<leftarrow> attr_get first_item ''value'';
          (let score = py_or (py_or a b) c
           in if truthy score
              then Some (JDict [(''date'', JStr current_date), (''training_readiness_score'', score)])
              else None)
        }
      | JDict kvs \<Rightarrow>
          (let score = py_or (py_get kvs ''score'') (py_get kvs ''trainingReadinessScore'')
           in if kvs \<noteq> [] \<and> truthy score
              then Some (JDict [(''date'', JStr current_date), (''training_readiness_score'', score)])
              else None)
      | _ \<Rightarrow> None)"

definition training_status_entry :: "string \<Rightarrow> json \<Rightarrow> json option" where
  "training_status_entry current_date training_status_data =
     (if \<not> truthy training_status_data then None
      else do {
        v \<leftarrow> attr_get training_status_data ''status'';
        Some (JDict [(''date'', JStr current_date), (''training_status'', v)])
      })"

text \<open>
  VO2 max: from the first item of a list answer or from a dictionary answer, under three
  names, the third read only when the first two are falsy. When that gives nothing truthy,
  the GraphQL call is tried inside a \<open>try\<close> of its own, whose failure changes nothing.
\<close>

definition vo2_max_of :: "json \<Rightarrow> json option" where
  "vo2_max_of item =
     or_else (or_else (attr_get item ''vo2Max'') (attr_get item ''vo2MaxValue''))
       (attr_get_default item ''generic'' (JDict []) \<bind> (\<lambda>g. attr_get g ''vo2MaxPreciseValue''))"

definition vo2_max_rest :: "json \<Rightarrow> json option" where
  "vo2_max_rest max_metrics_data =
     (case max_metrics_data of
        JList (first_item # rest) \<Rightarrow> vo2_max_of first_item
      | JDict kvs \<Rightarrow> if kvs = [] then Some JNull else vo2_max_of max_metrics_data
      | _ \<Rightarrow> Some JNull)"

definition vo2_max_graphql :: "json \<Rightarrow> json option" where
  \<comment> \<open>\<open>Some v\<close>: the inner block assigned \<open>v\<close>; \<open>None\<close>: it assigned nothing\<close>
  "vo2_max_graphql graphql_result =
     (case graphql_result of
        JDict kvs \<Rightarrow>
          if kvs = [] then None
          else do {
            data \<leftarrow> attr_get_default graphql_result ''data'' (JDict []);
            vo2_data \<leftarrow> attr_get_default data ''vo2MaxScalar'' (JList []);
            if \<not> truthy vo2_data then None
            else do {
              n \<leftarrow> py_len vo2_data;
              if n > 0 then do {
                item \<leftarrow> subscript_index vo2_data 0;
                a \<leftarrow> attr_get item ''vo2Max'';
                b \<leftarrow> attr_get item ''value'';
                Some (py_or a b)
              } else None
            }
          }
      | _ \<Rightarrow> None)"

definition max_metrics_entry :: "string \<Rightarrow> json option \<Rightarrow> json \<Rightarrow> json option" where
  "max_metrics_entry current_date graphql_response max_metrics_data = do {
     rest_value \<leftarrow> vo2_max_rest max_metrics_data;
     (let vo2_max_value =
            (if truthy rest_value then rest_value
             else case graphql_response \<bind> vo2_max_graphql of
                    Some v \<Rightarrow> v
                  | None \<Rightarrow> rest_value)
      in if truthy vo2_max_value
         then Some (JDict [(''date'', JStr current_date), (''vo2_max'', vo2_max_value)])
         else None)
   }"

definition hrv_readings :: "pylib \<Rightarrow> json list \<Rightarrow> (json list \<times> json list) option" where
  "hrv_readings lib hrv_list = do {
     rows \<leftarrow> map_option_list
       (\<lambda>entry. do {
          v \<leftarrow> attr_get entry ''hrvValue'';
          if truthy v then do {
            s \<leftarrow> subscript_key entry ''readingTimeGMT'';
            t \<leftarrow> strptime_json lib s;
            Some [(JDict [(''time'', JStr (isoformat lib t)), (''data'', v)], v)]
          } else Some []
        }) hrv_list;
     Some (map fst (concat rows), map snd (concat rows))
   }"

definition hrv_entry :: "pylib \<Rightarrow> string \<Rightarrow> json \<Rightarrow> json option" where
  "hrv_entry lib current_date response =
     (let hrv_raw = py_or response (JDict [])
      in do {
        hr \<leftarrow> attr_get hrv_raw ''hrvReadings'';
        hrv_list \<leftarrow> py_iter (py_or hr (JList []));
        (hrv_value, hrv_values) \<leftarrow> hrv_readings lib hrv_list;
        average \<leftarrow> (if hrv_values = [] then Some [] else
                     map_option (\<lambda>a. [(''average_overnight_hrv'', a)]) (py_mean hrv_values));
        kvs \<leftarrow> (case hrv_raw of JDict kvs \<Rightarrow> Some kvs | _ \<Rightarrow> None);
        summary_part \<leftarrow>
          (case py_or (py_get kvs ''hrvSummary'') (JDict []) of
             JDict hrv_summary \<Rightarrow>
               if hrv_summary = [] then Some []
               else Some
                 [(''last_night_avg'',
                   py_or (py_get hrv_summary ''lastNightAvg'') (py_get hrv_summary ''lastNight'')),
                  (''last_night_5min_high'', py_get hrv_summary ''lastNight5MinHigh''),
                  (''baseline_balanced_low'', py_get hrv_summary ''baselineBalancedLow''),
                  (''baseline_balanced_upper'', py_get hrv_summary ''baselineBalancedUpper''),
                  (''status'', py_get hrv_summary ''status'')]
           | _ \<Rightarrow> None);
        Some (JDict
          ([(''date'', JStr current_date), (''hrvValue'', JList hrv_value)]
           @ average
           @ [(''hrv_status'', py_or (py_get kvs ''hrvStatus'') (py_get kvs ''status'')),
              (''weekly_avg'', py_or (py_get kvs ''weeklyAvg'') (py_get kvs ''sevenDayAvg'')),
              (''baseline_low'', py_or (py_get kvs ''baselineLowUpper'') (py_get kvs ''baselineLow'')),
              (''baseline_high'', py_or (py_get kvs ''baselineBalancedLow'') (py_get kvs ''baselineHigh''))]
           @ summary_part))
      })"

definition endurance_score_entry :: "string \<Rightarrow> json \<Rightarrow> json option" where
  "endurance_score_entry current_date endurance_score_data =
     (if \<not> truthy endurance_score_data then None
      else do {
        v \<leftarrow> attr_get endurance_score_data ''score'';
        Some (JDict [(''date'', JStr current_date), (''endurance_score'', v)])
      })"

definition hill_score_entry :: "string \<Rightarrow> json \<Rightarrow> json option" where
  "hill_score_entry current_date hill_score_data =
     (if \<not> truthy hill_score_data then None
      else do {
        v \<leftarrow> attr_get hill_score_data ''overall'';
        Some (JDict [(''date'', JStr current_date), (''hill_score'', v)])
      })"

definition menstrual_data_entry :: "string \<Rightarrow> json \<Rightarrow> json option" where
  "menstrual_data_entry current_date menstrual_data =
     (if truthy menstrual_data
      then Some (JDict [(''date'', JStr current_date), (''data'', menstrual_data)])
      else None)"

definition first_item_field :: "string \<Rightarrow> json \<Rightarrow> json option" where
  \<comment> \<open>\<open>data[0].get(k)\<close> under \<open>if data and len(data) > 0\<close>; \<open>Some JNull\<close> when the test fails\<close>
  "first_item_field k training_readiness_data =
     (if \<not> truthy training_readiness_data then Some JNull
      else do {
        n \<leftarrow> py_len training_readiness_data;
        if n > 0 then do {
          item \<leftarrow> subscript_index training_readiness_data 0;
          attr_get item k
        } else Some JNull
      })"

definition recovery_time_entry :: "string \<Rightarrow> json \<Rightarrow> json option" where
  "recovery_time_entry current_date training_readiness_data = do {
     recovery_time_value \<leftarrow> first_item_field ''recoveryTime'' training_readiness_data;
     if recovery_time_value \<noteq> JNull then Some (dated_value current_date recovery_time_value)
     else None
   }"
subsection \<open>Blocks that append in a loop\<close>

definition blood_pressure_measurement :: "pylib \<Rightarrow> string \<Rightarrow> json \<Rightarrow> appends \<times> bool" where
  "blood_pressure_measurement lib current_date bp_entry =
     (case bp_entry of
        JDict kvs \<Rightarrow>
          (let systolic = py_get kvs ''systolic'';
               diastolic = py_get kvs ''diastolic'';
               pulse = py_get kvs ''pulse''
           in if systolic \<noteq> JNull \<and> diastolic \<noteq> JNull then
                done_with
                  [(''blood_pressure'',
                    dated_value current_date
                      (JStr (format_value lib systolic @ ''/'' @ format_value lib diastolic
                             @ (if pulse \<noteq> JNull then '', '' @ format_value lib pulse @ '' bpm''
                                else ''''))))]
              else done_with [])
      | _ \<Rightarrow> raised)"

definition blood_pressure_summary :: "pylib \<Rightarrow> string \<Rightarrow> json \<Rightarrow> appends \<times> bool" where
  "blood_pressure_summary lib current_date summary =
     (case summary of
        JDict kvs \<Rightarrow>
          if truthy (py_get kvs ''measurements'') then
            (case py_iter (py_get kvs ''measurements'') of
               None \<Rightarrow> raised
             | Some measurements \<Rightarrow> for_each (blood_pressure_measurement lib current_date) measurements)
          else done_with []
      | _ \<Rightarrow> raised)"

definition blood_pressure_block :: "pylib \<Rightarrow> string \<Rightarrow> json \<Rightarrow> appends" where
  "blood_pressure_block lib current_date blood_pressure_data =
     (case blood_pressure_data of
        JDict kvs \<Rightarrow>
          if kvs \<noteq> [] \<and> truthy (py_get kvs ''measurementSummaries'') then
            (case py_iter (py_get kvs ''measurementSummaries'') of
               None \<Rightarrow> []
             | Some summaries \<Rightarrow> fst (for_each (blood_pressure_summary lib current_date) summaries))
          else []
      | _ \<Rightarrow> [])"

text \<open>
  The second source of the body battery. It is asked only when \<open>health_data["body_battery"]\<close>
  holds no entry of this date yet (the test stands before the \<open>try\<close>).
\<close>

definition has_bb_for_date :: "string \<Rightarrow> json list \<Rightarrow> bool" where
  "has_bb_for_date current_date bb_entries =
     list_ex (\<lambda>bb. attr_get bb ''date'' = Some (JStr current_date)) bb_entries"

definition body_battery_fallback_entry :: "pylib \<Rightarrow> string \<Rightarrow> json \<Rightarrow> appends \<times> bool" where
  "body_battery_fallback_entry lib current_date bb_entry =
     (case
        do {
          bb_values \<leftarrow> attr_get_default bb_entry ''bodyBatteryValuesArray'' (JList []);
          (bb_highest, bb_lowest, bb_current) \<leftarrow>
            (if \<not> truthy bb_values then Some (JNull, JNull, JNull)
             else do {
               vs \<leftarrow> py_iter bb_values;
               col \<leftarrow> map_option_list (\<lambda>v. subscript_index v 1) vs;
               hi \<leftarrow> py_max lib col;
               col' \<leftarrow> map_option_list (\<lambda>v. subscript_index v 1) vs;
               lo \<leftarrow> py_min lib col';
               l \<leftarrow> subscript_index bb_values (- 1);
               cur \<leftarrow> subscript_index l 1;
               Some (hi, lo, cur)
             });
          charged \<leftarrow> attr_get bb_entry ''charged'';
          drained \<leftarrow> attr_get bb_entry ''drained'';
          Some (JDict [(''date'', JStr current_date),
                       (''body_battery_highest'', bb_highest),
                       (''body_battery_lowest'', bb_lowest),
                       (''body_battery_at_wake'', JNull),
                       (''body_battery_charged'', charged),
                       (''body_battery_drained'', drained),
                       (''body_battery_current'', bb_current)])
        }
      of None \<Rightarrow> raised
       | Some entry \<Rightarrow> done_with [(''body_battery'', entry)])"

definition body_battery_fallback :: "pylib \<Rightarrow> string \<Rightarrow> json \<Rightarrow> appends" where
  "body_battery_fallback lib current_date body_battery_data =
     (case body_battery_data of
        JList bb_entries \<Rightarrow> fst (for_each (body_battery_fallback_entry lib current_date) bb_entries)
      | _ \<Rightarrow> [])"

definition body_composition_entry :: "json \<Rightarrow> appends \<times> bool" where
  "body_composition_entry entry =
     (case entry of
        JDict kvs \<Rightarrow>
          (case
             do {
               weight \<leftarrow> safe_convert_opt (py_get kvs ''weight'') grams_to_kg;
               bone_mass \<leftarrow> safe_convert_opt (py_get kvs ''boneMass'') grams_to_kg;
               muscle_mass \<leftarrow> safe_convert_opt (py_get kvs ''muscleMass'') grams_to_kg;
               Some (JDict [(''date'', py_get kvs ''date''),
                            (''weight'', weight),
                            (''body_fat_percentage'', py_get kvs ''bodyFat''),
                            (''bmi'', py_get kvs ''bmi''),
                            (''body_water_percentage'', py_get kvs ''bodyWater''),
                            (''bone_mass'', bone_mass),
                            (''muscle_mass'', muscle_mass)])
             }
           of None \<Rightarrow> raised
            | Some e \<Rightarrow> done_with [(''body_composition'', e)])
      | _ \<Rightarrow> raised)"

definition body_composition_block :: "json \<Rightarrow> appends" where
  "body_composition_block body_composition_data =
     (case body_composition_data of
        JDict kvs \<Rightarrow>
          if kvs \<noteq> [] \<and> truthy (py_get kvs ''dateWeightList'') then
            (case py_iter (py_get kvs ''dateWeightList'') of
               None \<Rightarrow> []
             | Some entries \<Rightarrow> fst (for_each body_composition_entry entries))
          else []
      | _ \<Rightarrow> [])"

text \<open>
  Training load and acute load share one \<open>try\<close> block: the status call, the entry of the
  training load, then the readiness call and the entry of the acute load. \<open>ts_dict\<close> is
  the first value of \<open>latestTrainingStatusData\<close>.
\<close>

definition first_status :: "json \<Rightarrow> json option" where
  "first_status training_status_data =
     (if \<not> truthy training_status_data then Some JNull
      else do {
        m \<leftarrow> attr_get training_status_data ''mostRecentTrainingStatus'';
        if \<not> truthy m then Some JNull
        else do {
          l \<leftarrow> attr_get_default m ''latestTrainingStatusData'' (JDict []);
          (case l of
             JDict devices \<Rightarrow> Some (case devices of [] \<Rightarrow> JNull | (k, v) # rest \<Rightarrow> v)
           | _ \<Rightarrow> None)
        }
      })"

definition training_load_part :: "string \<Rightarrow> json \<Rightarrow> appends \<times> bool" where
  "training_load_part current_date ts_dict =
     (case
        do {
          weekly_load \<leftarrow> attr_get ts_dict ''weeklyTrainingLoad'';
          dto \<leftarrow> attr_get ts_dict ''acuteTrainingLoadDTO'';
          daily_acute_load_ts \<leftarrow> attr_get (py_or dto (JDict [])) ''dailyTrainingLoadAcute'';
          daily_chronic_load \<leftarrow> attr_get (py_or dto (JDict [])) ''dailyTrainingLoadChronic'';
          Some (if weekly_load \<noteq> JNull \<or> daily_acute_load_ts \<noteq> JNull \<or> daily_chronic_load \<noteq> JNull
                then [(''training_load'',
                       JDict [(''date'', JStr current_date),
                              (''weekly_training_load'', weekly_load),
                              (''daily_acute_training_load'', daily_acute_load_ts),
                              (''daily_chronic_training_load'', daily_chronic_load)])]
                else [])
        }
      of None \<Rightarrow> raised
       | Some l \<Rightarrow> done_with l)"

definition acute_load_part :: "string \<Rightarrow> json option \<Rightarrow> appends \<times> bool" where
  "acute_load_part current_date readiness_response =
     (case readiness_response \<bind> first_item_field ''acuteLoad'' of
        None \<Rightarrow> raised
      | Some acute_load_value \<Rightarrow>
          done_with (if acute_load_value \<noteq> JNull
                     then [(''acute_load'', dated_value current_date acute_load_value)]
                     else []))"

definition training_load_block ::
  "string list \<Rightarrow> string \<Rightarrow> json option \<Rightarrow> json option \<Rightarrow> appends" where
  "training_load_block metric_types_to_fetch current_date status_response readiness_response =
     (case status_response \<bind> first_status of
        None \<Rightarrow> []
      | Some ts_dict \<Rightarrow>
          if \<not> truthy ts_dict then []
          else fst
            (then_do
               (if ''training_load'' \<in> set metric_types_to_fetch
                then training_load_part current_date ts_dict else done_with [])
               (if ''acute_load'' \<in> set metric_types_to_fetch
                then acute_load_part current_date readiness_response else done_with [])))"
subsection \<open>One date, the loop over the dates, and the result\<close>

text \<open>
  The blocks of the loop body, in the order of the source. Each is guarded by the test of
  its metric names and ends in its own \<open>except Exception\<close>, so a block comes down to the
  entries it appends. Two blocks read \<open>health_data\<close> before they append: SpO2 reads the
  sleep entries and the second source of the body battery reads the body battery entries;
  \<open>Reads metric f\<close> is a block that appends \<open>f (health_data[metric])\<close>. Every other block
  is \<open>Plain\<close>: what it appends does not depend on \<open>health_data\<close>.
\<close>

datatype block = Plain appends | Reads string "json list \<Rightarrow> appends"

definition requested :: "string list \<Rightarrow> string \<Rightarrow> appends \<Rightarrow> appends" where
  "requested metric_types_to_fetch metric l = (if metric \<in> set metric_types_to_fetch then l else [])"

definition day_blocks ::
  "health_client \<Rightarrow> pylib \<Rightarrow> string list \<Rightarrow> string \<Rightarrow> block list" where
  "day_blocks garmin lib req current_date =
     [Plain (summary_block req current_date (daily garmin User_summary current_date)),
      Plain (requested req ''hydration''
             (append_if ''hydration''
                (daily garmin Hydration_data current_date \<bind> hydration_entry current_date))),
      Plain (requested req ''floors''
             (append_if ''floors'' (daily garmin Floors current_date \<bind> floors_entry current_date))),
      Plain (requested req ''fitness_age''
             (append_if ''fitness_age''
                (daily garmin Fitnessage_data current_date \<bind> fitness_age_entry current_date))),
      Plain (requested req ''heart_rates''
             (append_if ''heart_rates''
                (daily garmin Heart_rates current_date \<bind> heart_rates_entry lib current_date))),
      Plain (requested req ''sleep''
             (append_if ''sleep''
                (daily garmin Sleep_data current_date \<bind> sleep_entry lib current_date))),
      Plain (requested req ''stress''
             (append_if ''stress''
                (daily garmin Stress_data current_date \<bind> stress_entry lib current_date))),
      Plain (requested req ''respiration''
             (append_if ''respiration''
                (daily garmin Respiration_data current_date \<bind> respiration_entry current_date))),
      Reads ''sleep'' (\<lambda>sleep_entries.
           requested req ''spo2''
             (append_if ''spo2''
                (daily garmin Spo2_data current_date
                   \<bind> spo2_entry current_date (sleep_fallback current_date sleep_entries)))),
      Plain (requested req ''intensity_minutes''
             (append_if ''intensity_minutes''
                (daily garmin Intensity_minutes_data current_date
                   \<bind> intensity_minutes_entry current_date))),
      Plain (requested req ''training_readiness''
             (append_if ''training_readiness''
                (daily garmin Training_readiness current_date
                   \<bind> training_readiness_entry current_date))),
      Plain (requested req ''training_status''
             (append_if ''training_status''
                (daily garmin Training_status current_date \<bind> training_status_entry current_date))),
      Plain (requested req ''max_metrics''
             (append_if ''max_metrics''
                (daily garmin Max_metrics current_date
                   \<bind> max_metrics_entry current_date (daily garmin Vo2max_graphql current_date)))),
      Plain (requested req ''hrv''
             (append_if ''hrv'' (daily garmin Hrv_data current_date \<bind> hrv_entry lib current_date))),
      Plain (requested req ''endurance_score''
             (append_if ''endurance_score''
                (daily garmin Endurance_score current_date \<bind> endurance_score_entry current_date))),
      Plain (requested req ''hill_score''
             (append_if ''hill_score''
                (daily garmin Hill_score current_date \<bind> hill_score_entry current_date))),
      Plain (requested req ''blood_pressure''
             (case daily garmin Blood_pressure current_date of
                None \<Rightarrow> []
              | Some blood_pressure_data \<Rightarrow> blood_pressure_block lib current_date blood_pressure_data)),
      Reads ''body_battery'' (\<lambda>bb_entries.
           requested req ''body_battery''
             (if has_bb_for_date current_date bb_entries then []
              else case daily garmin Body_battery current_date of
                     None \<Rightarrow> []
                   | Some body_battery_data \<Rightarrow> body_battery_fallback lib current_date body_battery_data)),
      Plain (requested req ''menstrual_data''
             (append_if ''menstrual_data''
                (daily garmin Menstrual_data current_date \<bind> menstrual_data_entry current_date))),
      Plain (requested req ''menstrual_calendar_data''
             (append_if ''menstrual_calendar_data''
                (daily garmin Menstrual_calendar_data current_date \<bind> menstrual_data_entry current_date))),
      Plain (requested req ''body_composition''
             (case daily garmin Body_composition current_date of
                None \<Rightarrow> []
              | Some body_composition_data \<Rightarrow> body_composition_block body_composition_data)),
      Plain (requested req ''recovery_time''
             (append_if ''recovery_time''
                (daily garmin Readiness_for_recovery current_date \<bind> recovery_time_entry current_date))),
      Plain (if ''training_load'' \<in> set req \<or> ''acute_load'' \<in> set req
           then training_load_block req current_date (daily garmin Status_for_load current_date)
                  (daily garmin Readiness_for_acute_load current_date)
           else [])]"

fun run_block :: "block \<Rightarrow> health_data \<Rightarrow> health_data" where
  "run_block (Plain l) h = apply_appends l h"
| "run_block (Reads metric f) h = apply_appends (f (h metric)) h"

definition day :: "health_client \<Rightarrow> pylib \<Rightarrow> string list \<Rightarrow> string \<Rightarrow> health_data \<Rightarrow> health_data" where
  "day garmin lib req current_date h = fold run_block (day_blocks garmin lib req current_date) h"

definition empty_health_data :: health_data where
  "empty_health_data = (\<lambda>metric. [])"

text \<open>
  \<open>health_data\<close> after the calls made once and the loop over \<open>dates_to_fetch\<close>; the dates
  are those of \<open>get_dates_in_range(start_date, end_date)\<close>, computed by the date library.
\<close>

definition health_data_collected ::
  "health_client \<Rightarrow> pylib \<Rightarrow> string list \<Rightarrow> string \<Rightarrow> string list \<Rightarrow> health_data" where
  "health_data_collected garmin lib req start_date dates_to_fetch =
     fold (day garmin lib req) dates_to_fetch
       (apply_appends (once_blocks garmin req start_date) empty_health_data)"

definition metric_types_to_fetch_of :: "string list \<Rightarrow> string list" where
  \<comment> \<open>\<open>request_data.metric_types if request_data.metric_types else ALL_HEALTH_METRICS\<close>\<close>
  "metric_types_to_fetch_of metric_types = (if metric_types \<noteq> [] then metric_types else ALL_HEALTH_METRICS)"

definition as_json :: "health_data \<Rightarrow> json" where
  "as_json h = JDict (map (\<lambda>metric. (metric, JList (h metric))) ALL_HEALTH_METRICS)"

text \<open>
  The end of \<open>get_health_and_wellness\<close>: the cleaner, then the comprehension that keeps the
  items with a truthy value. \<open>None\<close> is the \<open>AttributeError\<close> of \<open>items()\<close> on a cleaned value
  that is no dictionary.
\<close>

definition final_health_data ::
  "decoder \<Rightarrow> health_client \<Rightarrow> pylib \<Rightarrow> string list \<Rightarrow> string \<Rightarrow> string list
     \<Rightarrow> (string \<times> json) list option" where
  "final_health_data d garmin lib metric_types start_date dates_to_fetch =
     (let health_data = health_data_collected garmin lib (metric_types_to_fetch_of metric_types)
                          start_date dates_to_fetch;
          cleaned_health_data = clean_garmin_data d (as_json health_data)
      in case cleaned_health_data of
           JDict kvs \<Rightarrow> Some (filter (\<lambda>(k, v). truthy v) kvs)
         | _ \<Rightarrow> None)"

text \<open>
  A library and a provider for the examples. The times of the library are a table of the
  texts that occur; no example depends on how a time is printed.
\<close>

definition sample_lib :: pylib where
  "sample_lib =
     \<lparr>fromtimestamp = (\<lambda>t. Some t),
      strptime_utc = (\<lambda>s.
         if s = ''2024-01-05T22:00:00.0'' then Some 0
         else if s = ''2024-01-05T22:30:00.0'' then Some 1800
         else if s = ''2024-01-05T23:30:00.0'' then Some 5400
         else if s = ''2024-01-05T23:45:00.0'' then Some 6300
         else if s = ''2024-01-05T23:55:00.0'' then Some 6900
         else None),
      isoformat = (\<lambda>t. if t = 0 then ''22:00'' else if t = 1800 then ''22:30''
                        else if t = 5400 then ''23:30'' else if t = 6300 then ''23:45''
                        else if t = 6900 then ''23:55'' else ''later''),
      format_value = (\<lambda>x. ''?''),
      format_0f = (\<lambda>r. ''?''),
      max_other = (\<lambda>xs. None),
      min_other = (\<lambda>xs. None)\<rparr>"

text \<open>
  Two answers of the sleep call for the examples. In the first the summary has no stage
  counts and the stage events last 1800 s (deep), 3600 s (light) and 900 s (rem). In the
  second the summary counts 600 s awake and nothing else, and the events are the same 600 s
  awake and one event of level 4.
\<close>

definition sample_stage :: "rat \<Rightarrow> string \<Rightarrow> string \<Rightarrow> json" where
  "sample_stage level s e =
     JDict [(''startGMT'', JStr s), (''endGMT'', JStr e), (''activityLevel'', JNum level)]"

definition sample_sleep :: json where
  "sample_sleep =
     JDict [(''dailySleepDTO'',
             JDict [(''sleepStartTimestampGMT'', JNum 1000), (''sleepEndTimestampGMT'', JNum 7900000),
                    (''sleepTimeSeconds'', JNum 6300), (''deepSleepSeconds'', JNum 0),
                    (''lightSleepSeconds'', JNum 0), (''remSleepSeconds'', JNum 0)]),
            (''sleepLevels'',
             JList [sample_stage 0 ''2024-01-05T22:00:00.0'' ''2024-01-05T22:30:00.0'',
                    sample_stage 1 ''2024-01-05T22:30:00.0'' ''2024-01-05T23:30:00.0'',
                    sample_stage 2 ''2024-01-05T23:30:00.0'' ''2024-01-05T23:45:00.0''])]"

definition sample_sleep_awake :: json where
  "sample_sleep_awake =
     JDict [(''dailySleepDTO'',
             JDict [(''sleepStartTimestampGMT'', JNum 1000), (''sleepEndTimestampGMT'', JNum 7900000),
                    (''sleepTimeSeconds'', JNum 600), (''deepSleepSeconds'', JNum 0),
                    (''lightSleepSeconds'', JNum 0), (''remSleepSeconds'', JNum 0),
                    (''awakeSleepSeconds'', JNum 600)]),
            (''sleepLevels'',
             JList [sample_stage 3 ''2024-01-05T23:45:00.0'' ''2024-01-05T23:55:00.0'',
                    sample_stage 4 ''2024-01-05T22:00:00.0'' ''2024-01-05T22:30:00.0''])]"

text \<open>The sum of the durations of the events of one stage type.\<close>

definition stage_sum :: "string \<Rightarrow> (string \<times> rat) list \<Rightarrow> rat" where
  "stage_sum stage_type evs = sum_list (map snd (filter (\<lambda>ev. fst ev = stage_type) evs))"

subsection \<open>Notions for stating the isolation of failures\<close>

text \<open>
  \<open>effect l metric\<close>: the entries that \<open>apply_appends l\<close> adds to the list of \<open>metric\<close>.
  \<open>day_entries\<close>: what one date's blocks append to empty lists, that is, the contribution
  of that date computed on its own. \<open>failing garmin c d\<close>: the provider \<open>garmin\<close>, but
  with the call \<open>c\<close> for the date \<open>d\<close> raising.
\<close>

fun effect :: "appends \<Rightarrow> string \<Rightarrow> json list" where
  "effect [] metric = []"
| "effect ((c, e) # l) metric =
     (if c \<in> set ALL_HEALTH_METRICS
      then (if c = metric then e # effect l metric else effect l metric)
      else [])"

definition day_entries ::
  "health_client \<Rightarrow> pylib \<Rightarrow> string list \<Rightarrow> string \<Rightarrow> string \<Rightarrow> json list" where
  "day_entries garmin lib req current_date = day garmin lib req current_date empty_health_data"

definition failing :: "health_client \<Rightarrow> daily_call \<Rightarrow> string \<Rightarrow> health_client" where
  "failing garmin c d =
     garmin\<lparr>daily := (\<lambda>c' d'. if c' = c \<and> d' = d then None else daily garmin c' d')\<rparr>"

text \<open>
  The metrics that a failure of a call can change on its date: those of the \<open>try\<close> block
  the call stands in, from the call on, and SpO2 for the sleep call, whose entry SpO2 falls
  back to. \<open>lost\<close> are the metrics that then have no entry of that date at all: the body
  battery and VO2 max have a second source, so a failure of one source alone does not
  empty them.
\<close>

fun affected :: "daily_call \<Rightarrow> string set" where
  "affected User_summary = set summary_metrics"
| "affected Hydration_data = {''hydration''}"
| "affected Floors = {''floors''}"
| "affected Fitnessage_data = {''fitness_age''}"
| "affected Heart_rates = {''heart_rates''}"
| "affected Sleep_data = {''sleep'', ''spo2''}"
| "affected Stress_data = {''stress''}"
| "affected Respiration_data = {''respiration''}"
| "affected Spo2_data = {''spo2''}"
| "affected Intensity_minutes_data = {''intensity_minutes''}"
| "affected Training_readiness = {''training_readiness''}"
| "affected Training_status = {''training_status''}"
| "affected Max_metrics = {''max_metrics''}"
| "affected Vo2max_graphql = {''max_metrics''}"
| "affected Hrv_data = {''hrv''}"
| "affected Endurance_score = {''endurance_score''}"
| "affected Hill_score = {''hill_score''}"
| "affected Blood_pressure = {''blood_pressure''}"
| "affected Body_battery = {''body_battery''}"
| "affected Menstrual_data = {''menstrual_data''}"
| "affected Menstrual_calendar_data = {}"
| "affected Body_composition = {''body_composition''}"
| "affected Readiness_for_recovery = {''recovery_time''}"
| "affected Status_for_load = {''training_load'', ''acute_load''}"
| "affected Readiness_for_acute_load = {''acute_load''}"

fun lost :: "daily_call \<Rightarrow> string set" where
  "lost User_summary =
     {''steps'', ''total_distance'', ''highly_active_seconds'', ''active_seconds'', ''sedentary_seconds''}"
| "lost Hydration_data = {''hydration''}"
| "lost Floors = {''floors''}"
| "lost Fitnessage_data = {''fitness_age''}"
| "lost Heart_rates = {''heart_rates''}"
| "lost Sleep_data = {''sleep''}"
| "lost Stress_data = {''stress''}"
| "lost Respiration_data = {''respiration''}"
| "lost Spo2_data = {''spo2''}"
| "lost Intensity_minutes_data = {''intensity_minutes''}"
| "lost Training_readiness = {''training_readiness''}"
| "lost Training_status = {''training_status''}"
| "lost Max_metrics = {''max_metrics''}"
| "lost Vo2max_graphql = {}"
| "lost Hrv_data = {''hrv''}"
| "lost Endurance_score = {''endurance_score''}"
| "lost Hill_score = {''hill_score''}"
| "lost Blood_pressure = {''blood_pressure''}"
| "lost Body_battery = {}"
| "lost Menstrual_data = {''menstrual_data''}"
| "lost Menstrual_calendar_data = {}"
| "lost Body_composition = {''body_composition''}"
| "lost Readiness_for_recovery = {''recovery_time''}"
| "lost Status_for_load = {''training_load'', ''acute_load''}"
| "lost Readiness_for_acute_load = {''acute_load''}"

text \<open>The cleaned list of one metric: what the response holds under its key, if not empty.\<close>

definition cleaned_series :: "decoder \<Rightarrow> json list \<Rightarrow> json list" where
  "cleaned_series d entries = filter (\<lambda>item. item \<noteq> JNull) (clean_list d entries)"

text \<open>\<open>writes_within S l\<close>: the appends \<open>l\<close> go to metrics of \<open>S\<close> only.\<close>

definition writes_within :: "string set \<Rightarrow> appends \<Rightarrow> bool" where
  "writes_within S l \<longleftrightarrow> fst ` set l \<subseteq> S"

text \<open>
  The list under a key of the response, empty when the key is absent, and the test that the
  daily summary of a date has data: the call answers a dictionary that is not empty.
\<close>

definition response_series :: "(string \<times> json) list option \<Rightarrow> string \<Rightarrow> json list" where
  "response_series r metric =
     (case r of
        Some kvs \<Rightarrow> (case map_of kvs metric of Some (JList es) \<Rightarrow> es | _ \<Rightarrow> [])
      | None \<Rightarrow> [])"

definition summary_available :: "health_client \<Rightarrow> string \<Rightarrow> bool" where
  "summary_available garmin current_date =
     (case daily garmin User_summary current_date of
        Some (JDict summary_data) \<Rightarrow> summary_data \<noteq> []
      | _ \<Rightarrow> False)"

text \<open>
  A provider for the examples. The daily summary has 1000 steps on 2024-01-05, raises on
  2024-01-06, has 0 steps on 2024-01-07 and is an empty dictionary on every other date.
  The sleep call of 2024-01-05 answers \<open>sample_sleep\<close> with an average SpO2 of 95 in its
  summary, and the SpO2 call of that date answers an empty dictionary. Every other call
  raises.
\<close>

definition sample_sleep_spo2 :: json where
  "sample_sleep_spo2 =
     JDict [(''dailySleepDTO'',
             JDict [(''sleepStartTimestampGMT'', JNum 1000), (''sleepEndTimestampGMT'', JNum 7900000),
                    (''sleepTimeSeconds'', JNum 6300), (''deepSleepSeconds'', JNum 1800),
                    (''lightSleepSeconds'', JNum 3600), (''remSleepSeconds'', JNum 900),
                    (''averageSpO2Value'', JNum 95)])]"

definition sample_health :: health_client where
  "sample_health =
     \<lparr>daily = (\<lambda>c current_date.
         if c = User_summary then
           (if current_date = ''2024-01-05'' then Some (JDict [(''totalSteps'', JNum 1000)])
            else if current_date = ''2024-01-06'' then None
            else if current_date = ''2024-01-07'' then Some (JDict [(''totalSteps'', JNum 0)])
            else Some (JDict []))
         else if c = Sleep_data \<and> current_date = ''2024-01-05'' then Some sample_sleep_spo2
         else if c = Spo2_data \<and> current_date = ''2024-01-05'' then Some (JDict [])
         else None),
      once = (\<lambda>c. None)\<rparr>"


text \<open>
  What a block appends in a state, and two properties of a state with respect to a date:
  no sleep or body battery entry carries the date, or all of them do. These are the two
  lists that a block reads, by the date of the entries.
\<close>

fun appends_of :: "block \<Rightarrow> health_data \<Rightarrow> appends" where
  "appends_of (Plain l) h = l"
| "appends_of (Reads metric f) h = f (h metric)"

definition date_fresh :: "string \<Rightarrow> health_data \<Rightarrow> bool" where
  "date_fresh current_date h \<longleftrightarrow>
     list_all (\<lambda>e. attr_get e ''entry_date'' \<noteq> Some (JStr current_date)) (h ''sleep'')
     \<and> list_all (\<lambda>e. attr_get e ''date'' \<noteq> Some (JStr current_date)) (h ''body_battery'')"

definition tags_date :: "string \<Rightarrow> appends \<Rightarrow> bool" where
  "tags_date current_date l \<longleftrightarrow>
     list_all (\<lambda>(metric, e).
        (metric = ''sleep'' \<longrightarrow> attr_get e ''entry_date'' = Some (JStr current_date))
        \<and> (metric = ''body_battery'' \<longrightarrow> attr_get e ''date'' = Some (JStr current_date))) l"

definition date_tagged :: "string \<Rightarrow> health_data \<Rightarrow> bool" where
  "date_tagged current_date h \<longleftrightarrow>
     list_all (\<lambda>e. attr_get e ''entry_date'' = Some (JStr current_date)) (h ''sleep'')
     \<and> list_all (\<lambda>e. attr_get e ''date'' = Some (JStr current_date)) (h ''body_battery'')"

text \<open>
  Two blocks append the same outside a set \<open>A\<close> of metrics. A block that reads a metric
  of \<open>A\<close> must do so whatever it reads.
\<close>

fun block_rel :: "string set \<Rightarrow> block \<Rightarrow> block \<Rightarrow> bool" where
  "block_rel A (Plain l) (Plain l') = (\<forall>metric. metric \<notin> A \<longrightarrow> effect l metric = effect l' metric)"
| "block_rel A (Reads r f) (Reads r' f') =
     (r = r' \<and>
      (if r \<in> A then \<forall>x y metric. metric \<notin> A \<longrightarrow> effect (f x) metric = effect (f' y) metric
       else \<forall>x metric. metric \<notin> A \<longrightarrow> effect (f x) metric = effect (f' x) metric))"
| "block_rel A b b' = False"

text \<open>
  The series of a metric as the entries of the calls made once followed by the entries of
  each date, every date computed on its own.
\<close>

definition series_by_date ::
  "health_client \<Rightarrow> pylib \<Rightarrow> string list \<Rightarrow> string \<Rightarrow> string list \<Rightarrow> string \<Rightarrow> json list" where
  "series_by_date garmin lib req start_date dates metric =
     effect (once_blocks garmin req start_date) metric
     @ concat (map (\<lambda>current_date. day_entries garmin lib req current_date metric) dates)"

section \<open>Properties of the stress to mood mapping\<close>

lemma mood_default: "0 \<le> s \<Longrightarrow> \<not> in_band s \<Longrightarrow> map_garmin_stress_to_mood (Some s) = (Some 50, Some ''Neutral'')"
  by (simp add: map_garmin_stress_to_mood_def in_band_def)
lemma gap_not_band: "in_gap s \<Longrightarrow> \<not> in_band s \<and> 0 \<le> s \<and> s \<le> 100"
  unfolding in_gap_def in_band_def by (elim disjE conjE; simp)



text \<open>
  Claim C10. The band tests have integer bounds, and the argument is the mean of the
  stress samples, which need not be an integer. Every value strictly between two adjacent
  bands (between 10 and 11, 25 and 26, 35 and 36, 50 and 51, 60 and 61, 75 and 76, 85 and
  86, 95 and 96) gives the default \<open>(50, Neutral)\<close>, the value of neither neighbouring band,
  although it lies in the range from 0 to 100.
\<close>

theorem stress_gap_gives_default:
  "in_gap s \<Longrightarrow>
     map_garmin_stress_to_mood (Some s) = (Some 50, Some ''Neutral'') \<and> 0 \<le> s \<and> s \<le> 100"
  using gap_not_band [of s] mood_default [of s] by blast

theorem stress_gap_gives_default_witness:
  "in_gap (21 / 2) \<and> map_garmin_stress_to_mood (Some (21 / 2)) = (Some 50, Some ''Neutral'')"
proof -
  have g: "in_gap (21 / 2)"
    by (simp add: in_gap_def)
  from stress_gap_gives_default [OF g] g show ?thesis
    by blast
qed

section \<open>Properties of the cleaner\<close>

lemma clean_idem_all:
  "clean_garmin_data d (clean_garmin_data d x) = clean_garmin_data d x"
  "clean_items d (clean_items d kvs) = clean_items d kvs \<and>
     (\<forall>(k, v) \<in> set (clean_items d kvs). v \<noteq> JNull \<and> \<not> excluded_key k)"
  "clean_list d (filter (\<lambda>item. item \<noteq> JNull) (clean_list d xs)) =
     filter (\<lambda>item. item \<noteq> JNull) (clean_list d xs)"
  by (induction d x and d kvs and d xs rule: clean_garmin_data_clean_items_clean_list.induct)
     (auto simp add: Let_def split: option.splits)





lemma clean_sample:
  "clean_garmin_data sample_loads
     (JDict [(''a'', JNum 0), (''ownerId'', JNum 3), (''b'', JStr ''null''),
             (''c'', JList [JNull, JStr ''0'', JStr ''steps''])])
   = JDict [(''a'', JNum 0), (''c'', JList [JNum 0, JStr ''steps''])]"
  by (simp add: sample_loads.rep_eq excluded_key_def Let_def sublist_code)

text \<open>
  Claim C7. The cleaner is idempotent: cleaning a cleaned value changes nothing,
  \<open>clean(clean(x)) = clean(x)\<close> for every value \<open>x\<close> (and every decoder).
\<close>

theorem clean_idempotent:
  "clean_garmin_data d (clean_garmin_data d x) = clean_garmin_data d x"
  by (rule clean_idem_all(1))

theorem clean_idempotent_witness:
  "clean_garmin_data sample_loads (JDict [(''a'', JNum 0), (''c'', JList [JNum 0, JStr ''steps''])])
   = JDict [(''a'', JNum 0), (''c'', JList [JNum 0, JStr ''steps''])]"
  using clean_idempotent [of sample_loads
      "JDict [(''a'', JNum 0), (''ownerId'', JNum 3), (''b'', JStr ''null''),
              (''c'', JList [JNull, JStr ''0'', JStr ''steps''])]"]
  by (simp only: clean_sample)



section \<open>Properties of the unit conversion\<close>

lemma py_get_cong: "map_of b k = map_of a k \<Longrightarrow> py_get b k = py_get a k"
  by (simp add: py_get_def)








lemma convert_field_total:
  "py_get a f = JNull \<or> (\<exists>r. py_get a f = JNum r) \<Longrightarrow> \<exists>b. convert_field f (\<lambda>x. true_div x c) a = Inr b"
  by (auto simp add: convert_field_def safe_convert_def)





section \<open>Properties of the MFA challenge cache\<close>

lemma mfa_login_stores:
  assumes "login_up garmin email password = Needs_mfa c"
    and "time_at_sweep env - time_at_store env \<le> MFA_TTL_SECONDS"
  shows "\<exists>store'. garmin_login garmin str_of env email password store
            = (Needs_mfa_response (uuid4_hex env), store')
          \<and> store' (uuid4_hex env) = Some \<lparr>state = c, ts = time_at_store env\<rparr>"
  using assms
  by (simp add: garmin_login_def cleanup_mfa_cache_def Let_def)

lemma mfa_resume_found:
  assumes "store h = Some item" and "h \<noteq> []" and "truthy code" and "truthy uid"
  shows "garmin_resume_login garmin str_of
           (JDict [(''client_state'', JStr h), (''mfa_code'', code), (''user_id'', uid)]) store
         = (case resume_login_up garmin (state item) code of
              Inr tokens \<Rightarrow> (Success_response tokens, store(h := None))
            | Inl e \<Rightarrow>
                (case e of
                   GarthHTTPError m \<Rightarrow> (Failure 500 (''Garmin MFA error: '' @ str_of e), store(h := None))
                 | GarthException m \<Rightarrow>
                     (Failure 500 (''Failed to complete Garmin MFA: '' @ str_of e), store(h := None))
                 | _ \<Rightarrow> (Failure 500 (''An unexpected error occurred: '' @ str_of e), store(h := None))))"
  using assms
  by (simp add: garmin_resume_login_def resume_try_def py_get_def Let_def split: sum.splits)

lemma mfa_resume_absent:
  assumes "store h = None" and "h \<noteq> []" and "truthy code" and "truthy uid"
  shows "garmin_resume_login garmin str_of
           (JDict [(''client_state'', JStr h), (''mfa_code'', code), (''user_id'', uid)]) store
         = (Failure 500 (''An unexpected error occurred: ''
                          @ str_of (HTTPException 400 ''Invalid or expired mfa_token'')), store)"
  using assms
  by (simp add: garmin_resume_login_def resume_try_def py_get_def Let_def)

text \<open>
  The lifecycle of a handle, for every provider, store and clock: a login that needs MFA
  answers with the handle and leaves the challenge stored under it; a resume with that
  handle and a code the provider accepts succeeds and removes the entry; a second resume
  with the same handle fails with the wrapped \<open>Invalid or expired mfa_token\<close>.
\<close>

theorem mfa_handle_lifecycle:
  assumes "login_up garmin email password = Needs_mfa c"
    and "time_at_sweep env - time_at_store env \<le> MFA_TTL_SECONDS"
    and "uuid4_hex env \<noteq> []"
    and "resume_login_up garmin c code = Inr tokens"
    and "truthy code" and "truthy uid"
    and "body = JDict [(''client_state'', JStr (uuid4_hex env)), (''mfa_code'', code), (''user_id'', uid)]"
  shows "\<exists>s1 s2.
           garmin_login garmin str_of env email password store = (Needs_mfa_response (uuid4_hex env), s1)
         \<and> garmin_resume_login garmin str_of body s1 = (Success_response tokens, s2)
         \<and> s2 (uuid4_hex env) = None
         \<and> garmin_resume_login garmin str_of body s2
             = (Failure 500 (''An unexpected error occurred: ''
                             @ str_of (HTTPException 400 ''Invalid or expired mfa_token'')), s2)"
proof -
  from mfa_login_stores [OF assms(1,2)] obtain s1 where
    s1: "garmin_login garmin str_of env email password store = (Needs_mfa_response (uuid4_hex env), s1)"
      "s1 (uuid4_hex env) = Some \<lparr>state = c, ts = time_at_store env\<rparr>"
    by blast
  let ?s2 = "s1(uuid4_hex env := None)"
  from mfa_resume_found [where store = s1 and h = "uuid4_hex env" and garmin = garmin
      and str_of = str_of, OF s1(2) assms(3,5,6)] assms(4,7)
  have r1: "garmin_resume_login garmin str_of body s1 = (Success_response tokens, ?s2)"
    by simp
  have "?s2 (uuid4_hex env) = None"
    by simp
  from mfa_resume_absent [where store = ?s2 and h = "uuid4_hex env" and garmin = garmin
      and str_of = str_of, OF this assms(3,5,6)] assms(7)
  have r2: "garmin_resume_login garmin str_of body ?s2
             = (Failure 500 (''An unexpected error occurred: ''
                             @ str_of (HTTPException 400 ''Invalid or expired mfa_token'')), ?s2)"
    by simp
  from s1(1) r1 r2 show ?thesis
    by auto
qed

theorem mfa_handle_lifecycle_witness:
  "fst (serve sample_garmin sample_str
     [(0, Login ''h1'' ''ann@example.org'' ''secret''),
      (10, Resume (resume_body ''h1'')),
      (20, Resume (resume_body ''h1''))] Map.empty)
   = [Needs_mfa_response ''h1'', Success_response ''tokens-of-ann'',
      Failure 500 ''An unexpected error occurred: 400: Invalid or expired mfa_token'']"
proof -
  let ?env = "\<lparr>uuid4_hex = ''h1'', time_at_store = 0, time_at_sweep = 0\<rparr>"
  have "login_up sample_garmin ''ann@example.org'' ''secret'' = Needs_mfa ''challenge-for-ann@example.org''"
    and "time_at_sweep ?env - time_at_store ?env \<le> MFA_TTL_SECONDS"
    and "uuid4_hex ?env \<noteq> []"
    and "resume_login_up sample_garmin ''challenge-for-ann@example.org'' (JStr ''123456'') = Inr ''tokens-of-ann''"
    and "truthy (JStr ''123456'')" and "truthy (JStr ''u1'')"
    and "resume_body ''h1'' = JDict [(''client_state'', JStr (uuid4_hex ?env)),
           (''mfa_code'', JStr ''123456''), (''user_id'', JStr ''u1'')]"
    by (simp_all add: sample_garmin_def MFA_TTL_SECONDS_def resume_body_def)
  from mfa_handle_lifecycle [OF this, of sample_str Map.empty]
  show ?thesis
    by (auto simp add: sample_str_def)
qed

text \<open>
  Claim C2. The claim holds up to its last part (the lifecycle above). Its last part, that a
  resume after the five minutes of the TTL fails like a consumed handle, does not hold of
  the code: \<open>garmin_resume_login\<close> never reads the clock, and the only sweep runs inside
  \<open>garmin_login\<close>. A handle issued at time 0 and resumed at time 1000, with no login in
  between, is accepted.
\<close>

theorem mfa_resume_after_ttl_succeeds:
  "fst (serve sample_garmin sample_str
     [(0, Login ''h1'' ''ann@example.org'' ''secret''),
      (1000, Resume (resume_body ''h1''))] Map.empty)
   = [Needs_mfa_response ''h1'', Success_response ''tokens-of-ann'']
   \<and> 1000 - 0 > MFA_TTL_SECONDS"
  by (simp add: garmin_login_def garmin_resume_login_def resume_try_def sample_garmin_def
      resume_body_def py_get_def cleanup_mfa_cache_def MFA_TTL_SECONDS_def Let_def)

text \<open>
  The sweep does expire the handle when another login that needs MFA comes after the TTL:
  the same resume then fails with the wrapped \<open>Invalid or expired mfa_token\<close>.
\<close>

lemma mfa_resume_after_sweep_fails:
  "fst (serve sample_garmin sample_str
     [(0, Login ''h1'' ''ann@example.org'' ''secret''),
      (400, Login ''h2'' ''bob@example.org'' ''secret''),
      (1000, Resume (resume_body ''h1''))] Map.empty)
   = [Needs_mfa_response ''h1'', Needs_mfa_response ''h2'',
      Failure 500 ''An unexpected error occurred: 400: Invalid or expired mfa_token'']"
  by (simp add: garmin_login_def garmin_resume_login_def resume_try_def sample_garmin_def
      sample_str_def resume_body_def py_get_def cleanup_mfa_cache_def MFA_TTL_SECONDS_def Let_def)

section \<open>Properties of the activity enrichment\<close>








lemma detail_activities_sample:
  "detail_activities sample_loads sample_dumps sample_client
     [[(''activityId'', JNum 1), (''calories'', JNum 500), (''bmrCalories'', JNum 120)],
      [(''activityId'', JNum 2)]]
   = Inr [JDict
           [(''activity'',
             JDict [(''activityId'', JNum 1), (''calories'', JNum 500), (''bmrCalories'', JNum 120),
                    (''cadence'', JNum 80), (''power'', JNull), (''active_calories'', JNum 380)]),
            (''details'', JStr ''{avgCadence: 80}''), (''splits'', JNull), (''weather'', JNull),
            (''hr_in_timezones'', JNull), (''exercise_sets'', JNull), (''gear'', JNull)],
          JDict [(''activity'', JDict [(''activityId'', JNum 2)])]]"
  by (simp add: detail_entry_def enriched_entry_def fetch_enrichments_def extract_cadence_power_def
      active_calories_def py_or_def py_get_def blob_def sample_client_def sample_dumps_def
      sample_loads.rep_eq excluded_key_def sublist_code Let_def)





section \<open>Properties of the sleep stage reconciliation\<close>

lemma add_stages_sums:
  assumes "deep_sleep_seconds t = JNum a" and "light_sleep_seconds t = JNum b"
    and "rem_sleep_seconds t = JNum c" and "add_stages t evs = Some t'"
  shows "deep_sleep_seconds t' = JNum (a + stage_sum ''deep'' evs)
       \<and> light_sleep_seconds t' = JNum (b + stage_sum ''light'' evs)
       \<and> rem_sleep_seconds t' = JNum (c + stage_sum ''rem'' evs)
       \<and> (\<forall>w. num_value (awake_sleep_seconds t) = Some w \<longrightarrow>
              num_value (awake_sleep_seconds t') = Some (w + stage_sum ''awake'' evs))"
  using assms
proof (induction evs arbitrary: t a b c)
  case Nil
  then show ?case by (simp add: stage_sum_def)
next
  case (Cons ev evs)
  obtain ty dur where ev: "ev = (ty, dur)"
    by (cases ev)
  from Cons.prems(4) ev obtain t1 where
    t1: "add_stage t (ty, dur) = Some t1" "add_stages t1 evs = Some t'"
    by (auto split: option.splits)
  consider "ty = ''deep''" | "ty = ''light''" | "ty = ''rem''" | "ty = ''awake''"
    | "ty \<noteq> ''deep''" "ty \<noteq> ''light''" "ty \<noteq> ''rem''" "ty \<noteq> ''awake''"
    by blast
  then show ?case
  proof cases
    case 1
    with t1(1) Cons.prems(1-3) have
      "deep_sleep_seconds t1 = JNum (a + dur)" "light_sleep_seconds t1 = JNum b"
      "rem_sleep_seconds t1 = JNum c" "awake_sleep_seconds t1 = awake_sleep_seconds t"
      by (auto simp add: add_seconds_def)
    from Cons.IH [OF this(1-3) t1(2)] this(4) 1 ev show ?thesis
      by (simp add: stage_sum_def add.assoc)
  next
    case 2
    with t1(1) Cons.prems(1-3) have
      "deep_sleep_seconds t1 = JNum a" "light_sleep_seconds t1 = JNum (b + dur)"
      "rem_sleep_seconds t1 = JNum c" "awake_sleep_seconds t1 = awake_sleep_seconds t"
      by (auto simp add: add_seconds_def)
    from Cons.IH [OF this(1-3) t1(2)] this(4) 2 ev show ?thesis
      by (simp add: stage_sum_def add.assoc)
  next
    case 3
    with t1(1) Cons.prems(1-3) have
      "deep_sleep_seconds t1 = JNum a" "light_sleep_seconds t1 = JNum b"
      "rem_sleep_seconds t1 = JNum (c + dur)" "awake_sleep_seconds t1 = awake_sleep_seconds t"
      by (auto simp add: add_seconds_def)
    from Cons.IH [OF this(1-3) t1(2)] this(4) 3 ev show ?thesis
      by (simp add: stage_sum_def add.assoc)
  next
    case 4
    with t1(1) Cons.prems(1-3) obtain w0 where
      "deep_sleep_seconds t1 = JNum a" "light_sleep_seconds t1 = JNum b"
      "rem_sleep_seconds t1 = JNum c"
      and w: "num_value (awake_sleep_seconds t) = Some w0" "awake_sleep_seconds t1 = JNum (w0 + dur)"
      by (auto simp add: add_seconds_def)
    from Cons.IH [OF this(1-3) t1(2)] w 4 ev show ?thesis
      by (simp add: stage_sum_def add.assoc)
  next
    case 5
    with t1(1) have "t1 = t"
      by simp
    with t1(2) have "add_stages t evs = Some t'"
      by simp
    from Cons.IH [OF Cons.prems(1-3) this] 5 ev show ?thesis
      by (simp add: stage_sum_def)
  qed
qed

text \<open>
  What holds of the reconciliation, for every answer of the provider: the stage totals are
  the daily summary's counts unless deep, light and rem are all 0; in that case deep, light
  and rem are the sums of the durations of the stage events of levels 0, 1 and 2, the time
  asleep is the sum of the three, and the events of level 3 are added to the summary's awake
  count. An event of any other level adds to no total.
\<close>

theorem sleep_stage_reconciliation:
  assumes "reconcile_stages lib sleep_summary levels = Some (totals, events)"
  shows "(\<not> needs_stage_sum (summary_totals sleep_summary) \<longrightarrow> totals = summary_totals sleep_summary)
       \<and> (needs_stage_sum (summary_totals sleep_summary) \<and> truthy levels \<longrightarrow>
            (\<exists>staged. stage_events_of lib levels = Some staged
               \<and> deep_sleep_seconds totals = JNum (stage_sum ''deep'' (stage_durations staged))
               \<and> light_sleep_seconds totals = JNum (stage_sum ''light'' (stage_durations staged))
               \<and> rem_sleep_seconds totals = JNum (stage_sum ''rem'' (stage_durations staged))
               \<and> time_asleep totals =
                   Some (JNum (stage_sum ''deep'' (stage_durations staged)
                               + stage_sum ''light'' (stage_durations staged)
                               + stage_sum ''rem'' (stage_durations staged)))
               \<and> (\<forall>w. num_value (awake_sleep_seconds (summary_totals sleep_summary)) = Some w \<longrightarrow>
                      num_value (awake_sleep_seconds totals)
                        = Some (w + stage_sum ''awake'' (stage_durations staged)))))"
proof (intro conjI impI)
  assume "\<not> needs_stage_sum (summary_totals sleep_summary)"
  with assms show "totals = summary_totals sleep_summary"
    by (auto simp add: reconcile_stages_def Let_def split: if_splits Option.bind_splits)
next
  assume n: "needs_stage_sum (summary_totals sleep_summary) \<and> truthy levels"
  with assms obtain staged where
    s: "stage_events_of lib levels = Some staged"
       "add_stages (summary_totals sleep_summary) (stage_durations staged) = Some totals"
    by (auto simp add: reconcile_stages_def Let_def split: if_splits Option.bind_splits)
  from n have z: "deep_sleep_seconds (summary_totals sleep_summary) = JNum 0"
    "light_sleep_seconds (summary_totals sleep_summary) = JNum 0"
    "rem_sleep_seconds (summary_totals sleep_summary) = JNum 0"
    by (simp_all add: needs_stage_sum_def)
  from add_stages_sums [OF z s(2)] s(1)
  show "\<exists>staged. stage_events_of lib levels = Some staged
               \<and> deep_sleep_seconds totals = JNum (stage_sum ''deep'' (stage_durations staged))
               \<and> light_sleep_seconds totals = JNum (stage_sum ''light'' (stage_durations staged))
               \<and> rem_sleep_seconds totals = JNum (stage_sum ''rem'' (stage_durations staged))
               \<and> time_asleep totals =
                   Some (JNum (stage_sum ''deep'' (stage_durations staged)
                               + stage_sum ''light'' (stage_durations staged)
                               + stage_sum ''rem'' (stage_durations staged)))
               \<and> (\<forall>w. num_value (awake_sleep_seconds (summary_totals sleep_summary)) = Some w \<longrightarrow>
                      num_value (awake_sleep_seconds totals)
                        = Some (w + stage_sum ''awake'' (stage_durations staged)))"
    by (simp add: time_asleep_def py_add_def)
qed

lemma sample_sleep_entry:
  "sleep_entry sample_lib ''2024-01-05'' sample_sleep \<bind> (\<lambda>e. attr_get e ''deep_sleep_seconds'')
     = Some (JNum 1800)"
  "sleep_entry sample_lib ''2024-01-05'' sample_sleep \<bind> (\<lambda>e. attr_get e ''light_sleep_seconds'')
     = Some (JNum 3600)"
  "sleep_entry sample_lib ''2024-01-05'' sample_sleep \<bind> (\<lambda>e. attr_get e ''rem_sleep_seconds'')
     = Some (JNum 900)"
  "sleep_entry sample_lib ''2024-01-05'' sample_sleep \<bind> (\<lambda>e. attr_get e ''time_asleep_in_seconds'')
     = Some (JNum 6300)"
  by (simp_all add: sleep_entry_def sample_sleep_def sample_stage_def sample_lib_def sleep_times_def
      sleep_score_def reconcile_stages_def stage_events_of_def stage_event_def stage_type_of_def stage_durations_def
      summary_totals_def needs_stage_sum_def add_seconds_def time_asleep_def py_add_def positive_def
      py_get_def py_or_def py_iter_def attr_get_def subscript_key_def strptime_json_def int_trunc_def
      Let_def)

theorem sleep_stage_reconciliation_witness:
  "reconcile_stages sample_lib
     [(''deepSleepSeconds'', JNum 0), (''lightSleepSeconds'', JNum 0), (''remSleepSeconds'', JNum 0)]
     (JList [sample_stage 0 ''2024-01-05T22:00:00.0'' ''2024-01-05T22:30:00.0'',
             sample_stage 1 ''2024-01-05T22:30:00.0'' ''2024-01-05T23:30:00.0'',
             sample_stage 2 ''2024-01-05T23:30:00.0'' ''2024-01-05T23:45:00.0''])
   \<bind> (\<lambda>(totals, events). time_asleep totals) = Some (JNum 6300)"
proof -
  let ?s = "[(''deepSleepSeconds'', JNum 0), (''lightSleepSeconds'', JNum 0), (''remSleepSeconds'', JNum 0)]"
  let ?l = "JList [sample_stage 0 ''2024-01-05T22:00:00.0'' ''2024-01-05T22:30:00.0'',
             sample_stage 1 ''2024-01-05T22:30:00.0'' ''2024-01-05T23:30:00.0'',
             sample_stage 2 ''2024-01-05T23:30:00.0'' ''2024-01-05T23:45:00.0'']"
  have st: "stage_events_of sample_lib ?l
            = Some [(''deep'', 1800, JDict [(''stage_type'', JStr ''deep''), (''start_time'', JStr ''22:00''),
                       (''end_time'', JStr ''22:30''), (''duration_in_seconds'', JNum 1800)]),
                    (''light'', 3600, JDict [(''stage_type'', JStr ''light''), (''start_time'', JStr ''22:30''),
                       (''end_time'', JStr ''23:30''), (''duration_in_seconds'', JNum 3600)]),
                    (''rem'', 900, JDict [(''stage_type'', JStr ''rem''), (''start_time'', JStr ''23:30''),
                       (''end_time'', JStr ''23:45''), (''duration_in_seconds'', JNum 900)])]"
    by (simp add: stage_events_of_def stage_event_def stage_type_of_def sample_stage_def sample_lib_def
        py_iter_def attr_get_def py_get_def subscript_key_def strptime_json_def int_trunc_def Let_def)
  obtain totals events where r: "reconcile_stages sample_lib ?s ?l = Some (totals, events)"
    by (auto simp add: reconcile_stages_def st summary_totals_def needs_stage_sum_def py_get_def
        py_or_def add_seconds_def stage_durations_def Let_def)
  have n: "needs_stage_sum (summary_totals ?s) \<and> truthy ?l"
    by (simp add: summary_totals_def needs_stage_sum_def py_get_def py_or_def)
  from sleep_stage_reconciliation [OF r] n st
  have "time_asleep totals = Some (JNum 6300)"
    by (simp add: stage_sum_def stage_durations_def)
  with r show ?thesis
    by simp
qed

text \<open>
  Claim C5. The claim holds of the code where the summary's awake count is 0 and every
  level is 0, 1, 2 or 3 (the reconciliation above, and the example of the claim: 1800, 3600,
  900 and a time asleep of 6300). It does not hold of the code in two places. The awake
  total is not recomputed: the awake events are added to the summary's awake count, so 600
  seconds awake that both sources report are counted twice. And only level 3 is awake: a
  level of 4 or more is \<open>unknown\<close>, although the source's own comment reads \<open>3+=awake\<close>.
\<close>

theorem sleep_awake_counted_twice:
  "sleep_entry sample_lib ''2024-01-05'' sample_sleep_awake \<bind> (\<lambda>e. attr_get e ''awake_sleep_seconds'')
     = Some (JNum 1200)
   \<and> sleep_entry sample_lib ''2024-01-05'' sample_sleep_awake \<bind> (\<lambda>e. attr_get e ''stage_events'')
     = Some (JList
         [JDict [(''stage_type'', JStr ''awake''), (''start_time'', JStr ''23:45''),
                 (''end_time'', JStr ''23:55''), (''duration_in_seconds'', JNum 600)],
          JDict [(''stage_type'', JStr ''unknown''), (''start_time'', JStr ''22:00''),
                 (''end_time'', JStr ''22:30''), (''duration_in_seconds'', JNum 1800)]])"
  by (simp add: sleep_entry_def sample_sleep_awake_def sample_stage_def sample_lib_def sleep_times_def
      sleep_score_def reconcile_stages_def stage_events_of_def stage_event_def stage_type_of_def stage_durations_def
      summary_totals_def needs_stage_sum_def add_seconds_def time_asleep_def py_add_def positive_def
      py_get_def py_or_def py_iter_def attr_get_def subscript_key_def strptime_json_def int_trunc_def
      Let_def)

section \<open>Properties of the aggregation\<close>

subsection \<open>Appending\<close>

lemma apply_appends_effect: "apply_appends l h metric = h metric @ effect l metric"
  by (induction l arbitrary: h) (auto split: prod.splits)

lemma effect_not_metric: "metric \<notin> set ALL_HEALTH_METRICS \<Longrightarrow> effect l metric = []"
  by (induction l) auto

lemma effect_Nil [simp]: "effect [] = (\<lambda>metric. [])"
  by (simp add: fun_eq_iff)

lemma effect_requested:
  "effect (requested req c l) metric = (if c \<in> set req then effect l metric else [])"
  by (simp add: requested_def)

lemma effect_append_if:
  "effect (append_if c x) metric =
     (if c = metric \<and> c \<in> set ALL_HEALTH_METRICS then (case x of Some e \<Rightarrow> [e] | None \<Rightarrow> []) else [])"
  by (simp add: append_if_def split: option.splits)

lemma writes_within_effect: "writes_within S l \<Longrightarrow> metric \<notin> S \<Longrightarrow> effect l metric = []"
  by (induction l) (auto simp add: writes_within_def)

lemma writes_within_simps [simp]:
  "writes_within S []"
  "writes_within S ((c, e) # l) \<longleftrightarrow> c \<in> S \<and> writes_within S l"
  "writes_within S (l @ l') \<longleftrightarrow> writes_within S l \<and> writes_within S l'"
  by (auto simp add: writes_within_def)

lemma writes_within_then_do:
  "writes_within S (fst p) \<Longrightarrow> writes_within S (fst q) \<Longrightarrow> writes_within S (fst (then_do p q))"
  by (simp add: then_do_def)

lemma writes_within_for_each:
  "(\<And>x. writes_within S (fst (body x))) \<Longrightarrow> writes_within S (fst (for_each body xs))"
  by (induction xs) (simp_all add: writes_within_then_do)

lemma writes_within_done [simp]:
  "writes_within S (fst (done_with l)) \<longleftrightarrow> writes_within S l"
  "writes_within S (fst raised)"
  by (simp_all add: done_with_def raised_def)

lemma writes_converted_part:
  "c \<in> S \<Longrightarrow> writes_within S (fst (converted_part req c d v f))"
  by (simp add: converted_part_def split: option.splits)

lemma writes_summary_block: "writes_within (set summary_metrics) (summary_block req d r)"
  unfolding summary_block_def
  by (auto simp add: summary_metrics_def summary_body_battery_def Let_def
      intro!: writes_within_then_do writes_converted_part split: option.splits json.splits)

lemma writes_blood_pressure: "writes_within {''blood_pressure''} (blood_pressure_block lib d x)"
proof -
  have m: "writes_within {''blood_pressure''} (fst (blood_pressure_measurement lib d e))" for e
    by (simp add: blood_pressure_measurement_def Let_def split: json.splits)
  have s: "writes_within {''blood_pressure''} (fst (blood_pressure_summary lib d e))" for e
    by (auto simp add: blood_pressure_summary_def intro!: writes_within_for_each m
        split: json.splits option.splits)
  show ?thesis
    by (auto simp add: blood_pressure_block_def intro!: writes_within_for_each s
        split: json.splits option.splits)
qed

lemma writes_body_battery_fallback: "writes_within {''body_battery''} (body_battery_fallback lib d x)"
proof -
  have "writes_within {''body_battery''} (fst (body_battery_fallback_entry lib d e))" for e
    by (simp add: body_battery_fallback_entry_def split: option.splits)
  then show ?thesis
    by (auto simp add: body_battery_fallback_def intro!: writes_within_for_each split: json.splits)
qed

lemma writes_body_composition: "writes_within {''body_composition''} (body_composition_block x)"
proof -
  have "writes_within {''body_composition''} (fst (body_composition_entry e))" for e
    by (simp add: body_composition_entry_def split: option.splits json.splits)
  then show ?thesis
    by (auto simp add: body_composition_block_def intro!: writes_within_for_each
        split: json.splits option.splits)
qed

lemma writes_training_load_part: "writes_within {''training_load''} (fst (training_load_part d t))"
  by (auto simp add: training_load_part_def bind_eq_Some_conv split: option.splits)

lemma writes_acute_load_part: "writes_within {''acute_load''} (fst (acute_load_part d r))"
  by (simp add: acute_load_part_def split: option.splits)

lemma writes_within_mono: "writes_within S l \<Longrightarrow> S \<subseteq> T \<Longrightarrow> writes_within T l"
  by (auto simp add: writes_within_def)

lemma writes_training_load_block:
  "writes_within {''training_load'', ''acute_load''} (training_load_block req d s r)"
  unfolding training_load_block_def
  by (auto split: option.splits
      intro!: writes_within_then_do
        writes_within_mono [OF writes_training_load_part]
        writes_within_mono [OF writes_acute_load_part])

lemma effect_training_load_failing:
  "metric \<noteq> ''acute_load'' \<Longrightarrow>
     effect (training_load_block req d s r) metric = effect (training_load_block req d s None) metric"
proof -
  assume m: "metric \<noteq> ''acute_load''"
  have a: "effect (fst (acute_load_part d x)) metric = []" for x
    using writes_within_effect [OF writes_acute_load_part, of metric d x] m by simp
  have e: "effect (l @ l') metric = effect l metric @ effect l' metric"
    if "writes_within {''training_load''} l" for l l'
    using that by (induction l) (auto simp add: ALL_HEALTH_METRICS_def)
  have t: "effect (fst (then_do p (acute_load_part d x))) metric = effect (fst p) metric"
    if "writes_within {''training_load''} (fst p)" for p x
    using that a [of x] e [of "fst p"] by (simp add: then_do_def)
  have t0: "effect (fst (then_do p (done_with []))) metric = effect (fst p) metric" for p
    by (simp add: then_do_def done_with_def)
  show ?thesis
    unfolding training_load_block_def
    by (auto split: option.splits simp add: t t0 writes_training_load_part)
qed

subsection \<open>The shape of the response\<close>

lemma all_metrics_kept: "\<forall>metric \<in> set ALL_HEALTH_METRICS. \<not> excluded_key metric"
  by (simp add: ALL_HEALTH_METRICS_def excluded_key_def sublist_code)

lemma distinct_metrics: "distinct ALL_HEALTH_METRICS"
  by (simp add: ALL_HEALTH_METRICS_def)

lemma clean_items_series:
  "\<forall>metric \<in> set ms. \<not> excluded_key metric \<Longrightarrow>
     clean_items d (map (\<lambda>metric. (metric, JList (f metric))) ms)
       = map (\<lambda>metric. (metric, JList (cleaned_series d (f metric)))) ms"
  by (induction ms) (simp_all add: cleaned_series_def Let_def)

lemma final_closed:
  "final_health_data d garmin lib metric_types start_date dates =
     Some (filter (\<lambda>(k, v). truthy v)
             (map (\<lambda>metric. (metric, JList (cleaned_series d
                      (health_data_collected garmin lib (metric_types_to_fetch_of metric_types)
                         start_date dates metric))))
                  ALL_HEALTH_METRICS))"
proof -
  have ne: "ALL_HEALTH_METRICS \<noteq> []"
    by (simp add: ALL_HEALTH_METRICS_def)
  show ?thesis
    unfolding final_health_data_def as_json_def
    by (simp add: clean_items_series [OF all_metrics_kept] Let_def ne)
qed

lemma response_series_final:
  "response_series (final_health_data d garmin lib metric_types start_date dates) metric =
     (if metric \<in> set ALL_HEALTH_METRICS
      then cleaned_series d (health_data_collected garmin lib (metric_types_to_fetch_of metric_types)
                               start_date dates metric)
      else [])"
proof -
  have m: "map_of (filter (\<lambda>(k, v). truthy v) (map (\<lambda>x. (x, JList (g x))) ms)) metric =
             (if metric \<in> set ms \<and> g metric \<noteq> [] then Some (JList (g metric)) else None)"
    for g :: "string \<Rightarrow> json list" and ms
    by (induction ms) auto
  show ?thesis
    unfolding final_closed response_series_def by (simp add: m)
qed

lemma final_values:
  assumes "final_health_data d garmin lib metric_types start_date dates = Some kvs"
  shows "distinct (map fst kvs)"
    and "(k, v) \<in> set kvs \<Longrightarrow> k \<in> set ALL_HEALTH_METRICS \<and> (\<exists>es. v = JList es \<and> es \<noteq> [])"
proof -
  have f: "map fst (filter (\<lambda>(k, v). truthy v) (map (\<lambda>x. (x, JList (g x))) ms))
             = filter (\<lambda>x. g x \<noteq> []) ms" for g :: "string \<Rightarrow> json list" and ms
    by (induction ms) auto
  from assms show "distinct (map fst kvs)"
    unfolding final_closed using distinct_metrics by (auto simp add: f)
  from assms show "(k, v) \<in> set kvs \<Longrightarrow> k \<in> set ALL_HEALTH_METRICS \<and> (\<exists>es. v = JList es \<and> es \<noteq> [])"
    unfolding final_closed by auto
qed

lemma cleaned_series_append:
  "cleaned_series d (xs @ ys) = cleaned_series d xs @ cleaned_series d ys"
  by (induction xs) (simp_all add: cleaned_series_def)

lemma cleaned_series_concat:
  "cleaned_series d (concat xss) = concat (map (cleaned_series d) xss)"
  by (induction xss) (simp_all add: cleaned_series_append, simp add: cleaned_series_def)

lemma length_cleaned_series: "length (cleaned_series d xs) \<le> length xs"
proof -
  have "length (clean_list d xs) = length xs"
    by (induction xs) simp_all
  then show ?thesis
    unfolding cleaned_series_def using length_filter_le [of "\<lambda>item. item \<noteq> JNull" "clean_list d xs"]
    by simp
qed

lemma fold_appends:
  "fold (\<lambda>x. apply_appends (l x)) xs h metric = h metric @ concat (map (\<lambda>x. effect (l x) metric) xs)"
  by (induction xs arbitrary: h) (simp_all add: apply_appends_effect)

lemma steps_only_day:
  "day garmin lib [''steps''] current_date =
     apply_appends (summary_block [''steps''] current_date (daily garmin User_summary current_date))"
  by (simp add: fun_eq_iff day_def day_blocks_def requested_def)

lemma steps_only_effect:
  "effect (summary_block [''steps''] current_date r) metric =
     (if metric = ''steps'' then
        (case r of
           Some (JDict summary_data) \<Rightarrow>
             if summary_data = [] then []
             else [dated_value current_date (py_get summary_data ''totalSteps'')]
         | _ \<Rightarrow> [])
      else [])"
  by (simp add: summary_block_def summary_metrics_def converted_part_def then_do_def done_with_def
      ALL_HEALTH_METRICS_def split: option.splits json.splits)

lemma steps_only_collected:
  "health_data_collected garmin lib [''steps''] start_date dates metric =
     concat (map (\<lambda>current_date.
        effect (summary_block [''steps''] current_date (daily garmin User_summary current_date)) metric)
        dates)"
proof -
  have o: "once_blocks garmin [''steps''] start_date = []"
    by (simp add: once_blocks_def)
  have d: "day garmin lib [''steps''] =
             (\<lambda>x. apply_appends (summary_block [''steps''] x (daily garmin User_summary x)))"
    by (rule ext) (rule steps_only_day)
  show ?thesis
    unfolding health_data_collected_def o d fold_appends
    by (simp add: empty_health_data_def)
qed

lemma steps_entry_kept:
  "loads d (replace_dq current_date) = None \<Longrightarrow>
     cleaned_series d [dated_value current_date v] \<noteq> []"
  by (simp add: cleaned_series_def dated_value_def excluded_key_def sublist_code Let_def)

lemma steps_only_length:
  "length (cleaned_series d (concat (map (\<lambda>current_date.
        effect (summary_block [''steps''] current_date (daily garmin User_summary current_date)) ''steps'')
        dates))) \<le> length dates"
proof -
  have "length (concat (map (\<lambda>current_date.
        effect (summary_block [''steps''] current_date (daily garmin User_summary current_date)) ''steps'')
        dates)) \<le> length dates"
    by (induction dates) (auto simp add: steps_only_effect split: option.splits json.splits)
  then show ?thesis
    using length_cleaned_series order_trans by blast
qed

lemma steps_only_count:
  "\<forall>current_date \<in> set dates. loads d (replace_dq current_date) = None \<Longrightarrow>
   length (cleaned_series d (concat (map (\<lambda>current_date.
        effect (summary_block [''steps''] current_date (daily garmin User_summary current_date)) ''steps'')
        dates))) = length (filter (summary_available garmin) dates)"
proof (induction dates)
  case Nil
  show ?case by (simp add: cleaned_series_def)
next
  case (Cons a dates)
  have k: "length (cleaned_series d [dated_value a v]) = 1" for v
    using steps_entry_kept [of d a v] Cons.prems length_cleaned_series [of d "[dated_value a v]"]
    by (cases "cleaned_series d [dated_value a v]") auto
  have e: "cleaned_series d [] = []"
    by (simp add: cleaned_series_def)
  from Cons show ?case
    by (simp add: cleaned_series_append steps_only_effect summary_available_def k e
        split: option.splits json.splits)
qed

lemma steps_only_final:
  "final_health_data d garmin lib [''steps''] start_date dates =
     Some (let es = cleaned_series d
                      (health_data_collected garmin lib [''steps''] start_date dates ''steps'')
           in if es = [] then [] else [(''steps'', JList es)])"
proof -
  have o: "health_data_collected garmin lib [''steps''] start_date dates metric = []"
    if "metric \<noteq> ''steps''" for metric
    unfolding steps_only_collected using that by (simp add: steps_only_effect)
  have e: "cleaned_series d [] = []"
    by (simp add: cleaned_series_def)
  show ?thesis
    unfolding final_closed
    by (simp add: ALL_HEALTH_METRICS_def metric_types_to_fetch_of_def o e Let_def)
qed

text \<open>
  Claim C4, amended. The request always gets its answer. The keys of the answer are
  distinct metric names, and every value is a list that is not empty: a metric whose list
  is empty after the cleaning is left out. When only \<open>steps\<close> is requested, the answer has
  no key other than \<open>steps\<close>, with at most one entry for each date; it has no key at all
  when no date has an entry. When no date is a text that the cleaner decodes, the entries
  are as many as the dates whose daily summary has data.
\<close>

theorem final_shape:
  "\<exists>kvs. final_health_data d garmin lib metric_types start_date dates = Some kvs
     \<and> distinct (map fst kvs)
     \<and> (\<forall>(k, v) \<in> set kvs. k \<in> set ALL_HEALTH_METRICS \<and> (\<exists>es. v = JList es \<and> es \<noteq> []))
     \<and> (metric_types = [''steps''] \<longrightarrow>
          (kvs = [] \<or> (\<exists>es. kvs = [(''steps'', JList es)] \<and> es \<noteq> [] \<and> length es \<le> length dates))
          \<and> ((\<forall>current_date \<in> set dates. loads d (replace_dq current_date) = None) \<longrightarrow>
               length (response_series (Some kvs) ''steps'')
                 = length (filter (summary_available garmin) dates)))"
proof -
  obtain kvs where kvs: "final_health_data d garmin lib metric_types start_date dates = Some kvs"
    unfolding final_closed by blast
  have a: "distinct (map fst kvs)"
    using final_values(1) [OF kvs] .
  have b: "\<forall>(k, v) \<in> set kvs. k \<in> set ALL_HEALTH_METRICS \<and> (\<exists>es. v = JList es \<and> es \<noteq> [])"
    using final_values(2) [OF kvs] by blast
  have c: "(kvs = [] \<or> (\<exists>es. kvs = [(''steps'', JList es)] \<and> es \<noteq> [] \<and> length es \<le> length dates))
          \<and> ((\<forall>current_date \<in> set dates. loads d (replace_dq current_date) = None) \<longrightarrow>
               length (response_series (Some kvs) ''steps'')
                 = length (filter (summary_available garmin) dates))"
    if m: "metric_types = [''steps'']"
  proof -
    let ?es = "cleaned_series d (health_data_collected garmin lib [''steps''] start_date dates ''steps'')"
    have k: "kvs = (if ?es = [] then [] else [(''steps'', JList ?es)])"
      using kvs unfolding m steps_only_final by (simp add: Let_def)
    have l: "length ?es \<le> length dates"
      unfolding steps_only_collected by (rule steps_only_length)
    have r: "response_series (Some kvs) ''steps'' = ?es"
      unfolding k by (simp add: response_series_def)
    have n: "length ?es = length (filter (summary_available garmin) dates)"
      if "\<forall>current_date \<in> set dates. loads d (replace_dq current_date) = None"
      unfolding steps_only_collected using that by (rule steps_only_count)
    from k l show ?thesis
      unfolding r using n by auto
  qed
  from kvs a b c show ?thesis
    by blast
qed

theorem final_shape_witness:
  "\<exists>e1 e2. final_health_data sample_loads sample_health sample_lib [''steps''] ''2024-01-05''
             [''2024-01-05'', ''2024-01-06'', ''2024-01-07'']
           = Some [(''steps'', JList [e1, e2])]"
proof -
  let ?dates = "[''2024-01-05'', ''2024-01-06'', ''2024-01-07'']"
  have n: "\<forall>current_date \<in> set ?dates. loads sample_loads (replace_dq current_date) = None"
    by (simp add: sample_loads.rep_eq)
  have s: "length (filter (summary_available sample_health) ?dates) = 2"
    by (simp add: summary_available_def sample_health_def)
  from final_shape [of sample_loads sample_health sample_lib "[''steps'']" "''2024-01-05''" ?dates]
  obtain kvs where kvs:
      "final_health_data sample_loads sample_health sample_lib [''steps''] ''2024-01-05'' ?dates = Some kvs"
    and c: "kvs = [] \<or> (\<exists>es. kvs = [(''steps'', JList es)] \<and> es \<noteq> [] \<and> length es \<le> length ?dates)"
    and l: "length (response_series (Some kvs) ''steps'') = 2"
    using n s by auto
  from l have "kvs \<noteq> []"
    by (auto simp add: response_series_def)
  with c obtain es where es: "kvs = [(''steps'', JList es)]"
    by blast
  with l have "length es = 2"
    by (simp add: response_series_def)
  then obtain e1 e2 where "es = [e1, e2]"
    by (cases es; cases "tl es") auto
  with kvs es show ?thesis
    by blast
qed

text \<open>
  The claim as it stands says that the answer has exactly one key, \<open>steps\<close>. On three
  consecutive dates for which the daily summary is empty the answer has no key.
\<close>

theorem steps_absent_counterexample:
  "final_health_data sample_loads sample_health sample_lib [''steps''] ''2024-01-08''
     [''2024-01-08'', ''2024-01-09'', ''2024-01-10''] = Some []"
  unfolding steps_only_final steps_only_collected
  by (simp add: steps_only_effect sample_health_def cleaned_series_def)

lemma steps_sample:
  "final_health_data sample_loads sample_health sample_lib [''steps''] ''2024-01-05''
     [''2024-01-05'', ''2024-01-06'', ''2024-01-07'']
   = Some [(''steps'',
            JList [JDict [(''date'', JStr ''2024-01-05''), (''value'', JNum 1000)],
                   JDict [(''date'', JStr ''2024-01-07''), (''value'', JNum 0)]])]"
  unfolding steps_only_final steps_only_collected
  by (simp add: steps_only_effect sample_health_def cleaned_series_def dated_value_def py_get_def
      sample_loads.rep_eq excluded_key_def sublist_code Let_def)

subsection \<open>The dates are independent of each other\<close>

lemma run_block_effect: "run_block b h metric = h metric @ effect (appends_of b h) metric"
  by (cases b) (simp_all add: apply_appends_effect)

lemma sleep_fallback_fresh:
  assumes "list_all (\<lambda>e. attr_get e ''entry_date'' \<noteq> Some (JStr d)) old"
  shows "sleep_fallback d (old @ new) = sleep_fallback d new"
proof -
  from assms have "filter (\<lambda>e. attr_get e ''entry_date'' = Some (JStr d)
              \<and> (case attr_get e ''average_spo2_value'' of Some v \<Rightarrow> truthy v | None \<Rightarrow> False)) old = []"
    by (induction old) auto
  then show ?thesis
    by (simp add: sleep_fallback_def)
qed

lemma has_bb_fresh:
  assumes "list_all (\<lambda>e. attr_get e ''date'' \<noteq> Some (JStr d)) old"
  shows "has_bb_for_date d (old @ new) = has_bb_for_date d new"
  using assms by (induction old) (auto simp add: has_bb_for_date_def)

lemma fold_blocks_append:
  assumes "\<And>r f x. Reads r f \<in> set bs \<Longrightarrow> f (h r @ x) = f x"
  shows "fold run_block bs (\<lambda>metric. h metric @ k metric) = (\<lambda>metric. h metric @ fold run_block bs k metric)"
  using assms
proof (induction bs arbitrary: k)
  case Nil
  show ?case by simp
next
  case (Cons b bs)
  have s: "run_block b (\<lambda>metric. h metric @ k metric) = (\<lambda>metric. h metric @ run_block b k metric)"
  proof (cases b)
    case (Plain l)
    show ?thesis
      unfolding Plain by (rule ext) (simp add: apply_appends_effect)
  next
    case (Reads r f)
    have "f (h r @ k r) = f (k r)"
      using Cons.prems [of r f "k r"] Reads by simp
    then show ?thesis
      unfolding Reads by (intro ext) (simp add: apply_appends_effect)
  qed
  have "fold run_block bs (\<lambda>metric. h metric @ run_block b k metric)
          = (\<lambda>metric. h metric @ fold run_block bs (run_block b k) metric)"
    using Cons.IH [of "run_block b k"] Cons.prems by simp
  then show ?case
    by (simp add: s)
qed

lemma day_blocks_reads:
  assumes "date_fresh d h" and "Reads r f \<in> set (day_blocks garmin lib req d)"
  shows "f (h r @ x) = f x"
  using assms
  by (auto simp add: day_blocks_def date_fresh_def sleep_fallback_fresh has_bb_fresh)

lemma day_append:
  assumes "date_fresh d h"
  shows "day garmin lib req d h = (\<lambda>metric. h metric @ day_entries garmin lib req d metric)"
proof -
  have "fold run_block (day_blocks garmin lib req d) (\<lambda>metric. h metric @ empty_health_data metric)
          = (\<lambda>metric. h metric @ fold run_block (day_blocks garmin lib req d) empty_health_data metric)"
    by (rule fold_blocks_append) (rule day_blocks_reads [OF assms])
  then show ?thesis
    by (simp add: day_def day_entries_def empty_health_data_def)
qed

lemma tags_date_simps [simp]:
  "tags_date d []"
  "tags_date d ((c, e) # l) \<longleftrightarrow>
     (c = ''sleep'' \<longrightarrow> attr_get e ''entry_date'' = Some (JStr d))
     \<and> (c = ''body_battery'' \<longrightarrow> attr_get e ''date'' = Some (JStr d)) \<and> tags_date d l"
  "tags_date d (l @ l') \<longleftrightarrow> tags_date d l \<and> tags_date d l'"
  by (auto simp add: tags_date_def)

lemma tags_date_writes:
  "writes_within S l \<Longrightarrow> ''sleep'' \<notin> S \<Longrightarrow> ''body_battery'' \<notin> S \<Longrightarrow> tags_date d l"
  by (induction l) auto

lemma tags_date_then_do:
  "tags_date d (fst p) \<Longrightarrow> tags_date d (fst q) \<Longrightarrow> tags_date d (fst (then_do p q))"
  by (simp add: then_do_def)

lemma tags_date_for_each:
  "(\<And>x. tags_date d (fst (body x))) \<Longrightarrow> tags_date d (fst (for_each body xs))"
  by (induction xs) (simp_all add: tags_date_then_do)

lemma tags_date_requested: "tags_date d l \<Longrightarrow> tags_date d (requested req c l)"
  by (simp add: requested_def)

lemma tags_date_append_if:
  "c \<noteq> ''sleep'' \<Longrightarrow> c \<noteq> ''body_battery'' \<Longrightarrow> tags_date d (append_if c x)"
  by (simp add: append_if_def split: option.splits)

lemma attr_get_first: "attr_get (JDict ((k, v) # kvs)) k = Some v"
  by (simp add: attr_get_def py_get_def)

lemma pred_option_bind: "(\<And>y. pred_option P (f y)) \<Longrightarrow> pred_option P (x \<bind> f)"
  by (cases x) simp_all

lemma sleep_entry_dated:
  "pred_option (\<lambda>e. attr_get e ''entry_date'' = Some (JStr d)) (sleep_entry lib d raw)"
  unfolding sleep_entry_def Let_def
  by (auto simp add: attr_get_first intro!: pred_option_bind
      split: json.split option.split prod.split)

lemma sleep_entry_date:
  "sleep_entry lib d raw = Some e \<Longrightarrow> attr_get e ''entry_date'' = Some (JStr d)"
  using sleep_entry_dated [of d lib raw] by simp

lemma tags_date_sleep:
  "tags_date d (append_if ''sleep'' (x \<bind> sleep_entry lib d))"
  by (cases x) (auto simp add: append_if_def sleep_entry_date split: option.splits)

lemma tags_date_summary: "tags_date d (summary_block req d r)"
proof -
  have c: "tags_date d (fst (converted_part req c d v f))"
    if "c \<noteq> ''sleep''" "c \<noteq> ''body_battery''" for c v f
    using that by (simp add: converted_part_def done_with_def raised_def split: option.splits)
  have b: "tags_date d (summary_body_battery d s)" for s
    by (simp add: summary_body_battery_def attr_get_def py_get_def Let_def)
  show ?thesis
    unfolding summary_block_def
    by (auto simp add: done_with_def b intro!: tags_date_then_do c split: option.splits json.splits)
qed

lemma tags_date_fallback: "tags_date d (body_battery_fallback lib d x)"
proof -
  have "tags_date d (fst (body_battery_fallback_entry lib d e))" for e
    by (auto simp add: body_battery_fallback_entry_def done_with_def raised_def attr_get_def py_get_def
        bind_eq_Some_conv split: option.splits if_splits prod.splits)
  then show ?thesis
    by (auto simp add: body_battery_fallback_def intro!: tags_date_for_each split: json.splits)
qed

lemma day_blocks_tags:
  "b \<in> set (day_blocks garmin lib req d) \<Longrightarrow> tags_date d (appends_of b h)"
  unfolding day_blocks_def
  by (auto intro!: tags_date_requested tags_date_append_if tags_date_sleep tags_date_summary
      tags_date_fallback
      tags_date_writes [OF writes_blood_pressure] tags_date_writes [OF writes_body_composition]
      tags_date_writes [OF writes_training_load_block]
      split: option.splits)

lemma effect_tagged:
  "tags_date d l \<Longrightarrow>
     list_all (\<lambda>e. attr_get e ''entry_date'' = Some (JStr d)) (effect l ''sleep'')
     \<and> list_all (\<lambda>e. attr_get e ''date'' = Some (JStr d)) (effect l ''body_battery'')"
  by (induction l) auto

lemma fold_blocks_tagged:
  assumes "\<And>b h. b \<in> set bs \<Longrightarrow> tags_date d (appends_of b h)"
  shows "date_tagged d h \<Longrightarrow> date_tagged d (fold run_block bs h)"
  using assms
proof (induction bs arbitrary: h)
  case Nil
  then show ?case by simp
next
  case (Cons b bs)
  have "date_tagged d (run_block b h)"
    using Cons.prems(1) effect_tagged [OF Cons.prems(2) [of b h]]
    by (simp add: date_tagged_def run_block_effect)
  then show ?case
    using Cons.IH [of "run_block b h"] Cons.prems(2) by simp
qed

lemma day_entries_tagged: "date_tagged d (day_entries garmin lib req d)"
  unfolding day_entries_def day_def
  by (rule fold_blocks_tagged) (simp_all add: day_blocks_tags date_tagged_def empty_health_data_def)

lemma fresh_after_day:
  assumes "date_fresh d' h" and "d \<noteq> d'"
  shows "date_fresh d' (\<lambda>metric. h metric @ day_entries garmin lib req d metric)"
proof -
  have "list_all (\<lambda>e. attr_get e k \<noteq> Some (JStr d')) xs"
    if "list_all (\<lambda>e. attr_get e k = Some (JStr d)) xs" for k xs
    using that assms(2) by (induction xs) auto
  then show ?thesis
    using assms(1) day_entries_tagged [of d garmin lib req]
    by (simp add: date_fresh_def date_tagged_def)
qed

lemma loop_by_date:
  "distinct dates \<Longrightarrow> list_all (\<lambda>d. date_fresh d h) dates \<Longrightarrow>
     fold (day garmin lib req) dates h metric
       = h metric @ concat (map (\<lambda>d. day_entries garmin lib req d metric) dates)"
proof (induction dates arbitrary: h)
  case Nil
  show ?case by simp
next
  case (Cons d dates)
  let ?h = "\<lambda>metric. h metric @ day_entries garmin lib req d metric"
  have f: "date_fresh d h"
    using Cons.prems(2) by simp
  have "list_all (\<lambda>d'. date_fresh d' ?h) dates"
    using Cons.prems fresh_after_day [of _ h d garmin lib req]
    by (auto simp add: list_all_iff)
  then have "fold (day garmin lib req) dates ?h metric
      = ?h metric @ concat (map (\<lambda>d. day_entries garmin lib req d metric) dates)"
    using Cons.IH [of ?h] Cons.prems(1) by simp
  then show ?case
    by (simp add: day_append [OF f])
qed

lemma collected_by_date:
  assumes "distinct dates"
  shows "health_data_collected garmin lib req start_date dates metric
           = series_by_date garmin lib req start_date dates metric"
proof -
  let ?h = "apply_appends (once_blocks garmin req start_date) empty_health_data"
  have s: "effect (once_blocks garmin req start_date) ''sleep'' = []"
    and b: "effect (once_blocks garmin req start_date) ''body_battery'' = []"
    by (simp_all add: once_blocks_def effect_append_if writes_within_effect
        [where S = "{''lactate_threshold'', ''race_predictions'', ''pregnancy_summary''}"]
        append_if_def split: option.splits)
  have "date_fresh d ?h" for d
    by (simp add: date_fresh_def apply_appends_effect empty_health_data_def s b)
  then have "list_all (\<lambda>d. date_fresh d ?h) dates"
    by (simp add: list_all_iff)
  from loop_by_date [OF assms this] show ?thesis
    by (simp add: health_data_collected_def series_by_date_def apply_appends_effect
        empty_health_data_def)
qed

subsection \<open>A call that raises\<close>

lemma day_entries_other:
  "dt \<noteq> d0 \<Longrightarrow> day_entries (failing garmin c d0) lib req dt = day_entries garmin lib req dt"
  by (simp add: day_entries_def day_def day_blocks_def failing_def fun_eq_iff)

lemma once_blocks_failing: "once_blocks (failing garmin c d0) = once_blocks garmin"
  by (simp add: once_blocks_def failing_def fun_eq_iff)

lemma fold_blocks_rel:
  "list_all2 (block_rel A) bs bs' \<Longrightarrow> (\<And>metric. metric \<notin> A \<Longrightarrow> h metric = h' metric) \<Longrightarrow>
     metric \<notin> A \<Longrightarrow> fold run_block bs h metric = fold run_block bs' h' metric"
proof (induction bs bs' arbitrary: h h' rule: list_all2_induct)
  case Nil
  then show ?case by simp
next
  case (Cons b bs b' bs')
  have "run_block b h m = run_block b' h' m" if m: "m \<notin> A" for m
  proof (cases b)
    case (Plain l)
    then obtain l' where b': "b' = Plain l'"
      using Cons.hyps(1) by (cases b') simp_all
    show ?thesis
      using Cons.hyps(1) Cons.prems(1) [OF m] m unfolding Plain b'
      by (simp add: apply_appends_effect)
  next
    case (Reads r f)
    then obtain f' where b': "b' = Reads r f'"
      using Cons.hyps(1) by (cases b') simp_all
    have "effect (f (h r)) m = effect (f' (h' r)) m"
    proof (cases "r \<in> A")
      case True
      then show ?thesis
        using Cons.hyps(1) m unfolding Reads b' by simp
    next
      case False
      then show ?thesis
        using Cons.hyps(1) m Cons.prems(1) [OF False] unfolding Reads b' by simp
    qed
    then show ?thesis
      using Cons.prems(1) [OF m] unfolding Reads b'
      by (simp add: apply_appends_effect)
  qed
  then show ?case
    using Cons.IH [of "run_block b h" "run_block b' h'"] Cons.prems(2) by simp
qed

lemma effect_summary:
  "metric \<notin> set summary_metrics \<Longrightarrow> effect (summary_block req d r) metric = []"
  using writes_within_effect [OF writes_summary_block] .

lemma effect_blood_pressure:
  "metric \<noteq> ''blood_pressure'' \<Longrightarrow> effect (blood_pressure_block lib d x) metric = []"
  using writes_within_effect [OF writes_blood_pressure, of metric lib d x] by simp

lemma effect_body_battery_fallback:
  "metric \<noteq> ''body_battery'' \<Longrightarrow> effect (body_battery_fallback lib d x) metric = []"
  using writes_within_effect [OF writes_body_battery_fallback, of metric lib d x] by simp

lemma effect_body_composition:
  "metric \<noteq> ''body_composition'' \<Longrightarrow> effect (body_composition_block x) metric = []"
  using writes_within_effect [OF writes_body_composition, of metric x] by simp

lemma effect_training_load:
  "metric \<noteq> ''training_load'' \<Longrightarrow> metric \<noteq> ''acute_load'' \<Longrightarrow>
     effect (training_load_block req d s r) metric = []"
  using writes_within_effect [OF writes_training_load_block, of metric req d s r] by simp

lemma effect_training_load_some:
  "metric \<noteq> ''acute_load'' \<Longrightarrow>
     effect (training_load_block req d s (Some x)) metric = effect (training_load_block req d s None) metric"
  by (rule effect_training_load_failing)

lemma summary_block_None: "summary_block req d None = []"
  by (simp add: summary_block_def)

lemma training_load_block_None: "training_load_block req d None r = []"
  by (simp add: training_load_block_def)

lemma effect_acute_load_None: "effect (training_load_block req d s None) ''acute_load'' = []"
proof -
  have e: "effect l ''acute_load'' = []" if "writes_within {''training_load''} l" for l
    using writes_within_effect [OF that, of "''acute_load''"] by simp
  have a: "fst (then_do p q) = fst p" if "fst q = []" for p q
    using that by (simp add: then_do_def)
  have q: "fst (acute_load_part d None) = []" "fst (done_with []) = []"
    by (simp_all add: acute_load_part_def raised_def done_with_def)
  have t: "effect (fst (training_load_part d x)) ''acute_load'' = []" for x
    by (rule e) (rule writes_training_load_part)
  show ?thesis
    unfolding training_load_block_def
    by (simp add: a q t split: option.splits)
qed

lemma calendar_not_metric: "''menstrual_calendar_data'' \<notin> set ALL_HEALTH_METRICS"
  by (simp add: ALL_HEALTH_METRICS_def)

lemmas effect_rules =
  effect_requested effect_append_if effect_summary effect_blood_pressure
  effect_body_battery_fallback effect_body_composition effect_training_load

lemma day_blocks_rel:
  "list_all2 (block_rel (affected c)) (day_blocks (failing garmin c d0) lib req d0)
     (day_blocks garmin lib req d0)"
proof (cases c)
  case Readiness_for_acute_load
  show ?thesis
    unfolding Readiness_for_acute_load
    by (cases "daily garmin Readiness_for_acute_load d0")
       (simp_all add: day_blocks_def failing_def effect_training_load_some)
qed (simp_all add: day_blocks_def failing_def effect_rules summary_metrics_def calendar_not_metric
    split: option.splits)

lemma day_entries_unaffected:
  assumes "metric \<notin> affected c"
  shows "day_entries (failing garmin c d0) lib req d0 metric = day_entries garmin lib req d0 metric"
  unfolding day_entries_def day_def
  by (rule fold_blocks_rel [OF day_blocks_rel _ assms]) simp

lemma fold_blocks_none:
  "list_all (\<lambda>b. \<forall>h. effect (appends_of b h) metric = []) bs \<Longrightarrow>
     fold run_block bs h metric = h metric"
  by (induction bs arbitrary: h) (simp_all add: run_block_effect)

lemma day_blocks_lost:
  "metric \<in> lost c \<Longrightarrow>
     list_all (\<lambda>b. \<forall>h. effect (appends_of b h) metric = [])
       (day_blocks (failing garmin c d0) lib req d0)"
  by (cases c; simp; (elim disjE)?;
      simp add: day_blocks_def failing_def effect_rules summary_metrics_def summary_block_None
        training_load_block_None effect_acute_load_None split: option.splits)

lemma day_entries_lost:
  "metric \<in> lost c \<Longrightarrow> day_entries (failing garmin c d0) lib req d0 metric = []"
  unfolding day_entries_def day_def
  by (simp add: fold_blocks_none [OF day_blocks_lost] empty_health_data_def)

lemma concat_without:
  "f d0 = [] \<Longrightarrow> (\<And>dt. dt \<noteq> d0 \<Longrightarrow> f dt = g dt) \<Longrightarrow>
     concat (map f dates) = concat (map g (removeAll d0 dates))"
  by (induction dates) auto

lemma series_unaffected:
  assumes "metric \<notin> affected c"
  shows "series_by_date (failing garmin c d0) lib req start_date dates metric
           = series_by_date garmin lib req start_date dates metric"
proof -
  have "day_entries (failing garmin c d0) lib req dt metric = day_entries garmin lib req dt metric" for dt
    using day_entries_unaffected [OF assms, of garmin d0 lib req] day_entries_other [of dt d0 garmin c lib req]
    by (cases "dt = d0") simp_all
  then show ?thesis
    by (simp add: series_by_date_def once_blocks_failing)
qed

lemma series_lost:
  assumes "metric \<in> lost c"
  shows "series_by_date (failing garmin c d0) lib req start_date dates metric
           = series_by_date garmin lib req start_date (removeAll d0 dates) metric"
proof -
  have "concat (map (\<lambda>dt. day_entries (failing garmin c d0) lib req dt metric) dates)
          = concat (map (\<lambda>dt. day_entries garmin lib req dt metric) (removeAll d0 dates))"
    by (rule concat_without) (simp_all add: day_entries_lost [OF assms] day_entries_other)
  then show ?thesis
    by (simp add: series_by_date_def once_blocks_failing)
qed

lemma response_by_date:
  assumes "distinct dates"
  shows "response_series (final_health_data d garmin lib metric_types start_date dates) metric =
     (if metric \<in> set ALL_HEALTH_METRICS
      then cleaned_series d (series_by_date garmin lib (metric_types_to_fetch_of metric_types)
                               start_date dates metric)
      else [])"
  unfolding response_series_final collected_by_date [OF assms] ..

text \<open>
  Claim C1, amended. Over distinct dates, let one call of the provider raise for one date.
  The request still gets its answer. Every metric outside the metrics of that call has the
  list it has when the call answers. A metric that the call alone provides has the list of
  the request without that date: the date is left out and the other dates are as they
  were. In general the list of a metric is made of the entries of each date, computed from
  the calls of that date alone, and the entries of every other date are those of the
  provider whose call answers. The metrics of a call are more than one where a call serves
  several, and the sleep call counts SpO2 among its metrics.
\<close>

theorem failure_isolation:
  assumes "distinct dates"
  shows "(\<exists>kvs. final_health_data d (failing garmin c d0) lib metric_types start_date dates = Some kvs)
     \<and> (\<forall>metric. metric \<notin> affected c \<longrightarrow>
          response_series (final_health_data d (failing garmin c d0) lib metric_types start_date dates) metric
            = response_series (final_health_data d garmin lib metric_types start_date dates) metric)
     \<and> (\<forall>metric \<in> lost c.
          response_series (final_health_data d (failing garmin c d0) lib metric_types start_date dates) metric
            = response_series (final_health_data d garmin lib metric_types start_date (removeAll d0 dates))
                metric)
     \<and> (\<forall>metric \<in> set ALL_HEALTH_METRICS.
          response_series (final_health_data d (failing garmin c d0) lib metric_types start_date dates) metric
            = cleaned_series d (series_by_date (failing garmin c d0) lib
                (metric_types_to_fetch_of metric_types) start_date dates metric))
     \<and> (\<forall>dt. dt \<noteq> d0 \<longrightarrow>
          day_entries (failing garmin c d0) lib (metric_types_to_fetch_of metric_types) dt
            = day_entries garmin lib (metric_types_to_fetch_of metric_types) dt)"
proof -
  have r: "distinct (removeAll d0 dates)"
    using assms by (rule distinct_removeAll)
  have a: "\<exists>kvs. final_health_data d (failing garmin c d0) lib metric_types start_date dates = Some kvs"
    unfolding final_closed by blast
  have b: "response_series (final_health_data d (failing garmin c d0) lib metric_types start_date dates) metric
            = response_series (final_health_data d garmin lib metric_types start_date dates) metric"
    if "metric \<notin> affected c" for metric
    unfolding response_by_date [OF assms] series_unaffected [OF that] ..
  have l: "response_series (final_health_data d (failing garmin c d0) lib metric_types start_date dates) metric
            = response_series (final_health_data d garmin lib metric_types start_date (removeAll d0 dates))
                metric"
    if "metric \<in> lost c" for metric
    unfolding response_by_date [OF assms] response_by_date [OF r] series_lost [OF that] ..
  have s: "response_series (final_health_data d (failing garmin c d0) lib metric_types start_date dates) metric
            = cleaned_series d (series_by_date (failing garmin c d0) lib
                (metric_types_to_fetch_of metric_types) start_date dates metric)"
    if "metric \<in> set ALL_HEALTH_METRICS" for metric
    unfolding response_by_date [OF assms] using that by simp
  have o: "day_entries (failing garmin c d0) lib (metric_types_to_fetch_of metric_types) dt
            = day_entries garmin lib (metric_types_to_fetch_of metric_types) dt"
    if "dt \<noteq> d0" for dt
    using that by (rule day_entries_other)
  from a b l s o show ?thesis
    by blast
qed

theorem failure_isolation_witness:
  "response_series
     (final_health_data sample_loads (failing sample_health User_summary ''2024-01-05'') sample_lib
        [''steps''] ''2024-01-05'' [''2024-01-05'', ''2024-01-06'', ''2024-01-07''])
     ''steps''
   = [JDict [(''date'', JStr ''2024-01-07''), (''value'', JNum 0)]]"
proof -
  let ?dates = "[''2024-01-05'', ''2024-01-06'', ''2024-01-07'']"
  have d: "distinct ?dates"
    by simp
  have m: "''steps'' \<in> lost User_summary"
    by simp
  have r: "removeAll ''2024-01-05'' ?dates = [''2024-01-06'', ''2024-01-07'']"
    by simp
  have v: "response_series
             (final_health_data sample_loads sample_health sample_lib [''steps''] ''2024-01-05''
                [''2024-01-06'', ''2024-01-07'']) ''steps''
           = [JDict [(''date'', JStr ''2024-01-07''), (''value'', JNum 0)]]"
    unfolding steps_only_final steps_only_collected
    by (simp add: steps_only_effect sample_health_def cleaned_series_def dated_value_def py_get_def
        sample_loads.rep_eq excluded_key_def sublist_code Let_def response_series_def)
  from failure_isolation [OF d, of sample_loads sample_health User_summary "''2024-01-05''" sample_lib
      "[''steps'']" "''2024-01-05''"] m
  have "response_series
          (final_health_data sample_loads (failing sample_health User_summary ''2024-01-05'') sample_lib
             [''steps''] ''2024-01-05'' ?dates) ''steps''
        = response_series
            (final_health_data sample_loads sample_health sample_lib [''steps''] ''2024-01-05''
               (removeAll ''2024-01-05'' ?dates)) ''steps''"
    by blast
  then show ?thesis
    unfolding r v .
qed

text \<open>
  The claim as it stands lets a call that raises change its own metric only. The sleep
  call is a counterexample: SpO2 falls back to the average of the sleep entry of the date,
  so with a SpO2 call that answers an empty dictionary the SpO2 entry of the date is there
  when the sleep call answers and is not when the sleep call raises.
\<close>

lemma sample_sleep_spo2_entry:
  "sleep_entry sample_lib ''2024-01-05'' sample_sleep_spo2
     \<bind> (\<lambda>e. attr_get e ''average_spo2_value'') = Some (JNum 95)"
  by (simp add: sleep_entry_def sample_sleep_spo2_def sample_lib_def sleep_times_def
      sleep_score_def reconcile_stages_def stage_events_of_def stage_event_def stage_type_of_def
      stage_durations_def summary_totals_def needs_stage_sum_def add_seconds_def time_asleep_def
      py_add_def positive_def py_get_def py_or_def py_iter_def attr_get_def subscript_key_def
      strptime_json_def int_trunc_def Let_def)

lemma sleep_spo2_day:
  "day_entries garmin lib [''sleep'', ''spo2''] d ''spo2'' =
     effect (append_if ''spo2''
       (daily garmin Spo2_data d
          \<bind> spo2_entry d (sleep_fallback d
                 (effect (append_if ''sleep'' (daily garmin Sleep_data d \<bind> sleep_entry lib d)) ''sleep''))))
       ''spo2''"
  by (simp add: day_entries_def day_def day_blocks_def requested_def summary_block_def
      summary_metrics_def apply_appends_effect empty_health_data_def effect_append_if
      ALL_HEALTH_METRICS_def)

lemma sleep_spo2_response:
  "response_series (final_health_data d garmin lib [''sleep'', ''spo2''] start_date [dt]) ''spo2''
     = cleaned_series d (day_entries garmin lib [''sleep'', ''spo2''] dt ''spo2'')"
proof -
  have o: "once_blocks garmin [''sleep'', ''spo2''] start_date = []"
    by (simp add: once_blocks_def)
  have m: "''spo2'' \<in> set ALL_HEALTH_METRICS"
    by (simp add: ALL_HEALTH_METRICS_def)
  have d: "distinct [dt]"
    by simp
  show ?thesis
    unfolding response_by_date [OF d]
    by (simp add: m series_by_date_def o metric_types_to_fetch_of_def)
qed

theorem sleep_failure_loses_spo2_counterexample:
  "response_series
     (final_health_data sample_loads sample_health sample_lib [''sleep'', ''spo2'']
        ''2024-01-05'' [''2024-01-05'']) ''spo2''
     = [JDict [(''date'', JStr ''2024-01-05''), (''average_spo2'', JNum 95)]]
   \<and> response_series
     (final_health_data sample_loads (failing sample_health Sleep_data ''2024-01-05'') sample_lib
        [''sleep'', ''spo2''] ''2024-01-05'' [''2024-01-05'']) ''spo2''
     = []"
proof -
  obtain e where e: "sleep_entry sample_lib ''2024-01-05'' sample_sleep_spo2 = Some e"
    and a: "attr_get e ''average_spo2_value'' = Some (JNum 95)"
    using sample_sleep_spo2_entry by (auto simp add: bind_eq_Some_conv)
  have t: "attr_get e ''entry_date'' = Some (JStr ''2024-01-05'')"
    using e by (rule sleep_entry_date)
  have m: "''spo2'' \<in> set ALL_HEALTH_METRICS" "''sleep'' \<in> set ALL_HEALTH_METRICS"
    by (simp_all add: ALL_HEALTH_METRICS_def)
  have f: "sleep_fallback ''2024-01-05'' [e] = JNum 95"
    by (simp add: sleep_fallback_def a t)
  have f0: "sleep_fallback ''2024-01-05'' [] = JNull"
    by (simp add: sleep_fallback_def)
  have s: "spo2_entry ''2024-01-05'' (JNum 95) (JDict [])
             = Some (JDict [(''date'', JStr ''2024-01-05''), (''average_spo2'', JNum 95)])"
    "spo2_entry ''2024-01-05'' JNull (JDict []) = None"
    by (simp_all add: spo2_entry_def Let_def)
  have c: "cleaned_series sample_loads [JDict [(''date'', JStr ''2024-01-05''), (''average_spo2'', JNum 95)]]
             = [JDict [(''date'', JStr ''2024-01-05''), (''average_spo2'', JNum 95)]]"
    "cleaned_series sample_loads [] = []"
    by (simp_all add: cleaned_series_def sample_loads.rep_eq excluded_key_def sublist_code Let_def)
  have 1: "day_entries sample_health sample_lib [''sleep'', ''spo2''] ''2024-01-05'' ''spo2''
             = [JDict [(''date'', JStr ''2024-01-05''), (''average_spo2'', JNum 95)]]"
    unfolding sleep_spo2_day
    by (simp add: sample_health_def e effect_append_if m f s)
  have 2: "day_entries (failing sample_health Sleep_data ''2024-01-05'') sample_lib [''sleep'', ''spo2'']
             ''2024-01-05'' ''spo2'' = []"
    unfolding sleep_spo2_day
    by (simp add: sample_health_def failing_def effect_append_if m f0 s)
  show ?thesis
    unfolding sleep_spo2_response 1 2 c by simp
qed

end
